theory Spec2Isabelle
  imports Main
begin

section \<open>Data model (types.ts)\<close>

text \<open>
  The TypeScript interfaces become records. The inline object types of
  \<^verbatim>\<open>CustomerProfile\<close> are anonymous in the source; each gets a record named after the
  key it sits under. String-literal unions (\<^verbatim>\<open>FormStage\<close>, \<^verbatim>\<open>purchase_type\<close>,
  \<^verbatim>\<open>Form.stage\<close>) stay strings, as they are at run time, so that \<^verbatim>\<open>===\<close> is
  equality of strings. Optional keys (\<^verbatim>\<open>created_at?\<close>, \<^verbatim>\<open>is_expired?\<close>) are options.
  The two numeric leaves (\<^verbatim>\<open>payoff_amount\<close>, \<^verbatim>\<open>income\<close>) are integers.
  The key \<^verbatim>\<open>make\<close> is spelled \<open>make'\<close>, since every record already owns a
  constant called \<open>make\<close>.
\<close>

type_synonym FormStage = string

record Address =
  full_address :: string
  street :: string
  city :: string
  state :: string
  zip :: string

record DriversLicense =
  number :: string
  expiration :: string
  state :: string
  is_expired :: "bool option"

record PersonalInfo =
  full_name :: string
  first_name :: string
  last_name :: string
  phone :: string
  email :: string
  address :: Address
  drivers_license :: DriversLicense

record InterestVehicle =
  year :: string
  make' :: string
  model :: string
  stock_number :: string
  vin :: string

record TradeVehicle =
  year :: string
  make' :: string
  model :: string
  vin :: string
  lien_holder :: string
  payoff_amount :: int

record VehicleInfo =
  interest_vehicle :: InterestVehicle
  trade_vehicle :: TradeVehicle
  trade_in :: bool
  purchase_type :: string

record Employment =
  employer :: string
  position :: string
  income :: int

record Reference =
  name :: string
  phone :: string
  relationship :: string

record FinancialInfo =
  employment :: Employment
  financing_needed :: bool
  references :: "Reference list"

record SalesInfo =
  stage :: string
  salesperson :: string

record CustomerProfile =
  id :: string
  created_at :: "string option"
  personal_info :: PersonalInfo
  vehicle_info :: VehicleInfo
  financial_info :: FinancialInfo
  sales_info :: SalesInfo

record Form =
  id :: string
  name :: string
  stage :: string

record RequiredForm =
  form :: Form
  reason :: string

record FormReadiness =
  isReady :: bool
  warnings :: "string list"

section \<open>The form catalog (constants.ts)\<close>

definition SALESPERSON_NAME :: string where
  "SALESPERSON_NAME = ''Stephen Schreck''"

definition ALL_FORMS :: "Form list" where
  "ALL_FORMS =
    [\<lparr>Form.id = ''interview_sheet'', name = ''Interview Sheet'', stage = ''initial_contact''\<rparr>,
     \<lparr>Form.id = ''test_drive_agreement'', name = ''Test Drive Agreement'', stage = ''initial_contact''\<rparr>,
     \<lparr>Form.id = ''credit_application'', name = ''Credit Application (F&I)'', stage = ''financing''\<rparr>,
     \<lparr>Form.id = ''reference_sheet'', name = ''Reference Sheet'', stage = ''financing''\<rparr>,
     \<lparr>Form.id = ''delivery_report'', name = ''Delivery Report'', stage = ''always''\<rparr>,
     \<lparr>Form.id = ''privacy_policy'', name = ''Privacy Policy'', stage = ''always''\<rparr>,
     \<lparr>Form.id = ''deal_check_list'', name = ''Deal Check List'', stage = ''always''\<rparr>,
     \<lparr>Form.id = ''oil_changes_form'', name = ''Oil Changes Form'', stage = ''conditional''\<rparr>,
     \<lparr>Form.id = ''payoff_authorization'', name = ''Payoff Authorization Sheet'', stage = ''conditional''\<rparr>]"

section \<open>Stage classification and required forms (formService)\<close>

text \<open>A JavaScript string is truthy exactly when it is not empty.\<close>

definition truthy_str :: "string \<Rightarrow> bool" where
  "truthy_str s = (s \<noteq> [])"

text \<open>
  \<^verbatim>\<open>determineStage\<close>: two guarded early returns and a default. The operands of
  \<^verbatim>\<open>&&\<close> are strings and one boolean; only their truthiness reaches the \<^verbatim>\<open>if\<close>.
\<close>

definition determineStage :: "CustomerProfile \<Rightarrow> FormStage" where
  "determineStage customer =
    (if truthy_str (InterestVehicle.vin (interest_vehicle (vehicle_info customer)))
        \<and> truthy_str (number (drivers_license (personal_info customer)))
     then ''closing''
     else if financing_needed (financial_info customer)
             \<and> truthy_str (full_name (personal_info customer))
             \<and> truthy_str (PersonalInfo.phone (personal_info customer))
     then ''financing''
     else ''initial_contact'')"

text \<open>
  \<^verbatim>\<open>s.replace(c, d)\<close> with one-character strings \<open>c\<close> and \<open>d\<close>: only the first
  occurrence is replaced.
\<close>

fun replace :: "char \<Rightarrow> char \<Rightarrow> string \<Rightarrow> string" where
  "replace c d [] = []"
| "replace c d (x # xs) = (if x = c then d # xs else x # replace c d xs)"

text \<open>
  The insertion-ordered \<^verbatim>\<open>Map\<close> is an association list: \<^verbatim>\<open>set\<close> on a present key
  replaces the value where the key stands, on a new key appends; \<^verbatim>\<open>values()\<close>
  lists the values in that order.
\<close>

fun map_set :: "'k \<Rightarrow> 'v \<Rightarrow> ('k \<times> 'v) list \<Rightarrow> ('k \<times> 'v) list" where
  "map_set k v [] = [(k, v)]"
| "map_set k v (e # m) = (if fst e = k then (k, v) # m else e # map_set k v m)"

definition map_values :: "('k \<times> 'v) list \<Rightarrow> 'v list" where
  "map_values m = map snd m"

definition getRequiredForms :: "CustomerProfile \<Rightarrow> RequiredForm list" where
  "getRequiredForms customer =
    (let stage = determineStage customer;
         requiredForms = [];
         requiredForms =
           foldl (\<lambda>m f. map_set (Form.id f)
                     \<lparr>form = f, reason = ''Stage: '' @ replace CHR ''_'' CHR '' '' stage\<rparr> m)
             requiredForms (filter (\<lambda>f. Form.stage f = stage) ALL_FORMS);
         requiredForms =
           (if purchase_type (vehicle_info customer) = ''new''
            then (case find (\<lambda>f. Form.id f = ''oil_changes_form'') ALL_FORMS of
                    Some f \<Rightarrow> map_set (Form.id f) \<lparr>form = f, reason = ''New Vehicle''\<rparr> requiredForms
                  | None \<Rightarrow> requiredForms)
            else requiredForms);
         requiredForms =
           (if trade_in (vehicle_info customer)
            then (case find (\<lambda>f. Form.id f = ''payoff_authorization'') ALL_FORMS of
                    Some f \<Rightarrow> map_set (Form.id f) \<lparr>form = f, reason = ''Has Trade-In''\<rparr> requiredForms
                  | None \<Rightarrow> requiredForms)
            else requiredForms);
         requiredForms =
           (if stage = ''closing''
            then foldl (\<lambda>m f. map_set (Form.id f) \<lparr>form = f, reason = ''Required for Sale''\<rparr> m)
                   requiredForms (filter (\<lambda>f. Form.stage f = ''always'') ALL_FORMS)
            else requiredForms)
     in map_values requiredForms)"

section \<open>Form readiness (formService)\<close>

text \<open>
  \<^verbatim>\<open>if (cond) warnings.push(w)\<close>: the list grows at its end when the condition holds.
\<close>

definition push_if :: "bool \<Rightarrow> string \<Rightarrow> string list \<Rightarrow> string list" where
  "push_if cond w ws = (if cond then ws @ [w] else ws)"

text \<open>
  \<^verbatim>\<open>getFormReadiness\<close>: the \<^verbatim>\<open>switch\<close> on the form id, every case a sequence of
  independent checks on one growing list, each case ended by \<^verbatim>\<open>break\<close>;
  \<^verbatim>\<open>privacy_policy\<close> falls through to \<^verbatim>\<open>deal_check_list\<close>; \<^verbatim>\<open>default\<close> checks
  nothing. \<^verbatim>\<open>!s\<close> on a string is the negation of its truthiness.
\<close>

definition getFormReadiness :: "string \<Rightarrow> CustomerProfile \<Rightarrow> FormReadiness" where
  "getFormReadiness formId customer =
    (let warnings = [];
         warnings =
          (if formId = ''interview_sheet'' then
             (let warnings = push_if (\<not> truthy_str (full_name (personal_info customer)))
                               ''Missing customer name.'' warnings;
                  warnings = push_if (\<not> truthy_str (PersonalInfo.phone (personal_info customer)))
                               ''Missing phone number.'' warnings;
                  warnings = push_if (\<not> truthy_str (email (personal_info customer)))
                               ''Missing email address.'' warnings
              in warnings)
           else if formId = ''test_drive_agreement'' then
             (let warnings = push_if (\<not> truthy_str (full_name (personal_info customer)))
                               ''Missing customer name.'' warnings;
                  warnings = push_if (\<not> truthy_str (number (drivers_license (personal_info customer))))
                               ''Missing driver's license number.'' warnings;
                  warnings = push_if (\<not> truthy_str (expiration (drivers_license (personal_info customer))))
                               ''Missing license expiration date.'' warnings;
                  warnings = push_if
                               (\<not> truthy_str (InterestVehicle.make' (interest_vehicle (vehicle_info customer)))
                                \<or> \<not> truthy_str (InterestVehicle.model (interest_vehicle (vehicle_info customer))))
                               ''Missing vehicle of interest.'' warnings
              in warnings)
           else if formId = ''credit_application'' then
             (let warnings = push_if (\<not> truthy_str (full_name (personal_info customer)))
                               ''Missing customer name.'' warnings;
                  warnings = push_if (\<not> truthy_str (full_address (address (personal_info customer))))
                               ''Missing customer address.'' warnings;
                  warnings = push_if (\<not> truthy_str (employer (employment (financial_info customer))))
                               ''Missing employment information.'' warnings
              in warnings)
           else if formId = ''reference_sheet'' then
             (let warnings = push_if (\<not> truthy_str (full_name (personal_info customer)))
                               ''Missing customer name.'' warnings;
                  warnings = push_if (length (references (financial_info customer)) < 1)
                               ''At least one reference is required.'' warnings
              in warnings)
           else if formId = ''delivery_report'' then
             (let warnings = push_if (\<not> truthy_str (full_name (personal_info customer)))
                               ''Missing customer name.'' warnings;
                  warnings = push_if (\<not> truthy_str (InterestVehicle.vin (interest_vehicle (vehicle_info customer))))
                               ''Missing VIN for vehicle of interest.'' warnings
              in warnings)
           else if formId = ''privacy_policy'' \<or> formId = ''deal_check_list'' then
             push_if (\<not> truthy_str (full_name (personal_info customer)))
               ''Missing customer name.'' warnings
           else if formId = ''oil_changes_form'' then
             (let warnings = push_if (\<not> truthy_str (full_name (personal_info customer)))
                               ''Missing customer name.'' warnings;
                  warnings = push_if (\<not> truthy_str (InterestVehicle.model (interest_vehicle (vehicle_info customer))))
                               ''Missing vehicle model.'' warnings
              in warnings)
           else if formId = ''payoff_authorization'' then
             (let warnings = push_if (\<not> truthy_str (full_name (personal_info customer)))
                               ''Missing customer name.'' warnings;
                  warnings = push_if (\<not> truthy_str (TradeVehicle.vin (trade_vehicle (vehicle_info customer))))
                               ''Missing trade-in vehicle VIN.'' warnings;
                  warnings = push_if (\<not> truthy_str (lien_holder (trade_vehicle (vehicle_info customer))))
                               ''Missing trade-in lien holder.'' warnings
              in warnings)
           else warnings)
     in \<lparr>isReady = (length warnings = 0), warnings = warnings\<rparr>)"

subsection \<open>The rule table of the specification\<close>

text \<open>
  The specification's table, written down on its own: per document id the ordered
  list of requirements, each the test that the required field is empty (zero
  length for the list of references) together with the warning it produces.
  \<^verbatim>\<open>test_drive_agreement\<close> asks for make and model as one requirement.
  An id outside the table has no entry.
\<close>

type_synonym requirement = "(CustomerProfile \<Rightarrow> bool) \<times> string"

definition need_full_name :: requirement where
  "need_full_name = (\<lambda>c. full_name (personal_info c) = '''', ''Missing customer name.'')"

definition rule_table :: "string \<Rightarrow> requirement list option" where
  "rule_table formId =
    (if formId = ''interview_sheet'' then Some
       [need_full_name,
        (\<lambda>c. PersonalInfo.phone (personal_info c) = '''', ''Missing phone number.''),
        (\<lambda>c. email (personal_info c) = '''', ''Missing email address.'')]
     else if formId = ''test_drive_agreement'' then Some
       [need_full_name,
        (\<lambda>c. number (drivers_license (personal_info c)) = '''', ''Missing driver's license number.''),
        (\<lambda>c. expiration (drivers_license (personal_info c)) = '''', ''Missing license expiration date.''),
        (\<lambda>c. InterestVehicle.make' (interest_vehicle (vehicle_info c)) = '''' \<or>
              InterestVehicle.model (interest_vehicle (vehicle_info c)) = '''',
         ''Missing vehicle of interest.'')]
     else if formId = ''credit_application'' then Some
       [need_full_name,
        (\<lambda>c. full_address (address (personal_info c)) = '''', ''Missing customer address.''),
        (\<lambda>c. employer (employment (financial_info c)) = '''', ''Missing employment information.'')]
     else if formId = ''reference_sheet'' then Some
       [need_full_name,
        (\<lambda>c. length (references (financial_info c)) = 0, ''At least one reference is required.'')]
     else if formId = ''delivery_report'' then Some
       [need_full_name,
        (\<lambda>c. InterestVehicle.vin (interest_vehicle (vehicle_info c)) = '''',
         ''Missing VIN for vehicle of interest.'')]
     else if formId = ''privacy_policy'' then Some [need_full_name]
     else if formId = ''deal_check_list'' then Some [need_full_name]
     else if formId = ''oil_changes_form'' then Some
       [need_full_name,
        (\<lambda>c. InterestVehicle.model (interest_vehicle (vehicle_info c)) = '''', ''Missing vehicle model.'')]
     else if formId = ''payoff_authorization'' then Some
       [need_full_name,
        (\<lambda>c. TradeVehicle.vin (trade_vehicle (vehicle_info c)) = '''', ''Missing trade-in vehicle VIN.''),
        (\<lambda>c. lien_holder (trade_vehicle (vehicle_info c)) = '''', ''Missing trade-in lien holder.'')]
     else None)"

text \<open>The warnings the table asks for: one per unmet requirement, in table order.\<close>

definition unmet_warnings :: "requirement list \<Rightarrow> CustomerProfile \<Rightarrow> string list" where
  "unmet_warnings rules c = map snd (filter (\<lambda>r. fst r c) rules)"

section \<open>JavaScript values (utils, customerService, pdfService)\<close>

text \<open>
  \<^verbatim>\<open>getValueByPath\<close>, \<^verbatim>\<open>generateFlatKeys\<close> and \<^verbatim>\<open>deepMerge\<close> take \<^verbatim>\<open>any\<close>: they work
  on whatever JSON-like value they are handed. Such a value is \<^verbatim>\<open>undefined\<close>,
  \<^verbatim>\<open>null\<close>, a boolean, a number, a string, an array or a plain object. A plain object
  is the list of its own enumerable properties in insertion order. Numbers are
  integers (the profile's numeric leaves are amounts); keys that look like array
  indices, which a JavaScript engine would move to the front of an object, do not
  occur among the profile's keys and are kept where they are inserted.
\<close>

datatype jsval =
    JUndefined
  | JNull
  | JBool bool
  | JNum int
  | JStr string
  | JArr "jsval list"
  | JObj "(string \<times> jsval) list"

datatype js_error = TypeError string | Error string

text \<open>
  How a run of one of these functions ends without a result. \<open>Thrown\<close>: the source
  throws this error. \<open>HostProperty\<close>: the run has read a property that the value
  does not own and may inherit from a prototype of the host, such as the methods
  \<^verbatim>\<open>constructor\<close> and \<^verbatim>\<open>toString\<close> or the accessor \<^verbatim>\<open>__proto__\<close>. From there on the
  source works with a function or object of the host, which is not JSON data: it may
  return some host value, or throw. The model stops at that read, names the
  property, and says nothing about what the source does next.
\<close>

datatype abort = Thrown js_error | HostProperty string

text \<open>Truthiness: what \<^verbatim>\<open>&&\<close>, \<^verbatim>\<open>!\<close> and \<^verbatim>\<open>if\<close> look at.\<close>

fun truthy :: "jsval \<Rightarrow> bool" where
  "truthy JUndefined = False"
| "truthy JNull = False"
| "truthy (JBool b) = b"
| "truthy (JNum n) = (n \<noteq> 0)"
| "truthy (JStr s) = (s \<noteq> [])"
| "truthy (JArr xs) = True"
| "truthy (JObj es) = True"

fun typeof :: "jsval \<Rightarrow> string" where
  "typeof JUndefined = ''undefined''"
| "typeof JNull = ''object''"
| "typeof (JBool b) = ''boolean''"
| "typeof (JNum n) = ''number''"
| "typeof (JStr s) = ''string''"
| "typeof (JArr xs) = ''object''"
| "typeof (JObj es) = ''object''"

fun isArray :: "jsval \<Rightarrow> bool" where
  "isArray (JArr xs) = True"
| "isArray v = False"

text \<open>Decimal digits of a natural number and of an integer, as \<^verbatim>\<open>String(n)\<close> prints them.\<close>

definition digit_char :: "nat \<Rightarrow> char" where
  "digit_char d =
    (if d = 0 then CHR ''0'' else if d = 1 then CHR ''1'' else if d = 2 then CHR ''2''
     else if d = 3 then CHR ''3'' else if d = 4 then CHR ''4'' else if d = 5 then CHR ''5''
     else if d = 6 then CHR ''6'' else if d = 7 then CHR ''7'' else if d = 8 then CHR ''8''
     else CHR ''9'')"

fun nat_to_str :: "nat \<Rightarrow> string" where
  "nat_to_str n = (if n < 10 then [digit_char n] else nat_to_str (n div 10) @ [digit_char (n mod 10)])"

definition int_to_str :: "int \<Rightarrow> string" where
  "int_to_str i = (if i < 0 then CHR ''-'' # nat_to_str (nat (- i)) else nat_to_str (nat i))"

text \<open>
  The own enumerable properties of a value, as \<^verbatim>\<open>Object.keys\<close> lists them and as
  the spread \<^verbatim>\<open>{...v}\<close> copies them: the entries of an object, the indexed elements
  of an array, the indexed characters of a string, nothing for any other value.
\<close>

fun own_properties :: "jsval \<Rightarrow> (string \<times> jsval) list" where
  "own_properties (JObj es) = es"
| "own_properties (JArr xs) = List.zip (map nat_to_str [0..<length xs]) xs"
| "own_properties (JStr s) = List.zip (map nat_to_str [0..<length s]) (map (\<lambda>c. JStr [c]) s)"
| "own_properties v = []"

text \<open>
  The names every plain object inherits from \<^verbatim>\<open>Object.prototype\<close> (ECMAScript,
  with its annex for web browsers). Arrays, strings, numbers and booleans inherit
  many more from their own prototypes, and the list grows with the language; of
  their names only the indices and \<^verbatim>\<open>length\<close> are certain to be data.
\<close>

definition Object_prototype_names :: "string list" where
  "Object_prototype_names =
    [''constructor'', ''__defineGetter__'', ''__defineSetter__'', ''hasOwnProperty'',
     ''__lookupGetter__'', ''__lookupSetter__'', ''isPrototypeOf'', ''propertyIsEnumerable'',
     ''toString'', ''valueOf'', ''__proto__'', ''toLocaleString'']"

text \<open>An array index as a property name: decimal digits without a leading zero.\<close>

definition is_index :: "string \<Rightarrow> bool" where
  "is_index key =
    (key \<noteq> [] \<and> list_all (\<lambda>c. c \<in> set ''0123456789'') key \<and> (key = ''0'' \<or> hd key \<noteq> CHR ''0''))"


text \<open>
  Reading a property, \<^verbatim>\<open>v[key]\<close>. On \<^verbatim>\<open>undefined\<close> and \<^verbatim>\<open>null\<close> it throws a
  \<^verbatim>\<open>TypeError\<close>. An own property is found first. A plain object that does not own
  the key answers \<^verbatim>\<open>undefined\<close> unless \<^verbatim>\<open>Object.prototype\<close> supplies the name. An
  array or string has its indexed elements and \<^verbatim>\<open>length\<close>; an index out of range
  is \<^verbatim>\<open>undefined\<close>, and so is any index of a number or boolean; every other name
  of theirs may be inherited.
\<close>

fun js_get :: "jsval \<Rightarrow> string \<Rightarrow> abort + jsval" where
  "js_get JUndefined key = Inl (Thrown (TypeError ''Cannot read properties of undefined''))"
| "js_get JNull key = Inl (Thrown (TypeError ''Cannot read properties of null''))"
| "js_get (JObj es) key =
     (case map_of es key of
        Some v \<Rightarrow> Inr v
      | None \<Rightarrow> if key \<in> set Object_prototype_names then Inl (HostProperty key) else Inr JUndefined)"
| "js_get (JArr xs) key =
     (if key = ''length'' then Inr (JNum (int (length xs)))
      else (case map_of (own_properties (JArr xs)) key of
              Some v \<Rightarrow> Inr v
            | None \<Rightarrow> if is_index key then Inr JUndefined else Inl (HostProperty key)))"
| "js_get (JStr s) key =
     (if key = ''length'' then Inr (JNum (int (length s)))
      else (case map_of (own_properties (JStr s)) key of
              Some v \<Rightarrow> Inr v
            | None \<Rightarrow> if is_index key then Inr JUndefined else Inl (HostProperty key)))"
| "js_get (JNum n) key = (if is_index key then Inr JUndefined else Inl (HostProperty key))"
| "js_get (JBool b) key = (if is_index key then Inr JUndefined else Inl (HostProperty key))"

subsection \<open>getValueByPath and generateFlatKeys (utils)\<close>

text \<open>\<^verbatim>\<open>s.split(c)\<close> for a one-character separator: the empty string splits into one empty piece.\<close>

fun js_split :: "char \<Rightarrow> string \<Rightarrow> string list" where
  "js_split c [] = [[]]"
| "js_split c (x # xs) =
     (if x = c then [] # js_split c xs
      else (case js_split c xs of
              w # ws \<Rightarrow> (x # w) # ws
            | [] \<Rightarrow> [[x]]))"

text \<open>
  \<^verbatim>\<open>path.split('.').reduce((acc, part) => acc && acc[part], obj)\<close>. The callback
  \<^verbatim>\<open>acc && acc[part]\<close> is \<open>acc\<close> itself when \<open>acc\<close> is falsy and the property read
  otherwise. A throw inside the callback leaves \<^verbatim>\<open>reduce\<close> at once, and so
  does the model at the read of a host property.
\<close>

definition reduce_step :: "abort + jsval \<Rightarrow> string \<Rightarrow> abort + jsval" where
  "reduce_step r part =
    (case r of
       Inl a \<Rightarrow> Inl a
     | Inr acc \<Rightarrow> if truthy acc then js_get acc part else Inr acc)"

definition getValueByPath :: "jsval \<Rightarrow> string \<Rightarrow> abort + jsval" where
  "getValueByPath obj path = foldl reduce_step (Inr obj) (js_split CHR ''.'' path)"

text \<open>
  \<^verbatim>\<open>generateFlatKeys\<close> is private to the module and is only applied to plain objects:
  to the initial profile by \<^verbatim>\<open>getCustomerProfileFlatKeys\<close>, and to a value that has
  passed the test \<^verbatim>\<open>typeof value === 'object' && value !== null && !Array.isArray(value)\<close>.
  Its argument is therefore the entry list of a plain object. The \<^verbatim>\<open>reduce\<close> over
  \<^verbatim>\<open>Object.keys(obj)\<close> reads \<^verbatim>\<open>obj[key]\<close> for each key, that is, it walks the entries.
\<close>

fun generateFlatKeys :: "(string \<times> jsval) list \<Rightarrow> string \<Rightarrow> string list" where
  "generateFlatKeys obj path =
     foldl (\<lambda>acc (key, value).
              let newPath = (if path \<noteq> [] then path @ ''.'' @ key else key)
              in (case value of
                    JObj es \<Rightarrow> acc @ generateFlatKeys es newPath
                  | _ \<Rightarrow> acc @ [newPath]))
       [] obj"

text \<open>
  The object literal \<^verbatim>\<open>INITIAL_CUSTOMER_PROFILE\<close> of constants.ts, key by key. It has
  no \<^verbatim>\<open>id\<close>, no \<^verbatim>\<open>created_at\<close> and no \<^verbatim>\<open>is_expired\<close>.
\<close>

definition INITIAL_CUSTOMER_PROFILE :: "(string \<times> jsval) list" where
  "INITIAL_CUSTOMER_PROFILE =
    [(''personal_info'', JObj
       [(''full_name'', JStr ''''),
        (''first_name'', JStr ''''),
        (''last_name'', JStr ''''),
        (''phone'', JStr ''''),
        (''email'', JStr ''''),
        (''address'', JObj
           [(''full_address'', JStr ''''),
            (''street'', JStr ''''),
            (''city'', JStr ''''),
            (''state'', JStr ''''),
            (''zip'', JStr '''')]),
        (''drivers_license'', JObj
           [(''number'', JStr ''''),
            (''expiration'', JStr ''''),
            (''state'', JStr ''OH'')])]),
     (''vehicle_info'', JObj
       [(''interest_vehicle'', JObj
           [(''year'', JStr ''''),
            (''make'', JStr ''''),
            (''model'', JStr ''''),
            (''stock_number'', JStr ''''),
            (''vin'', JStr '''')]),
        (''trade_vehicle'', JObj
           [(''year'', JStr ''''),
            (''make'', JStr ''''),
            (''model'', JStr ''''),
            (''vin'', JStr ''''),
            (''lien_holder'', JStr ''''),
            (''payoff_amount'', JNum 0)]),
        (''trade_in'', JBool False),
        (''purchase_type'', JStr '''')]),
     (''financial_info'', JObj
       [(''employment'', JObj
           [(''employer'', JStr ''''),
            (''position'', JStr ''''),
            (''income'', JNum 0)]),
        (''financing_needed'', JBool False),
        (''references'', JArr [])]),
     (''sales_info'', JObj
       [(''stage'', JStr ''initial_contact''),
        (''salesperson'', JStr SALESPERSON_NAME)])]"

text \<open>
  \<^verbatim>\<open>getCustomerProfileFlatKeys\<close> memoises in the module variable \<^verbatim>\<open>flatKeys\<close>, which
  starts as \<^verbatim>\<open>null\<close>: the variable is passed in and handed back. An array, even an
  empty one, is truthy, so only \<^verbatim>\<open>null\<close> triggers the computation.
\<close>

definition getCustomerProfileFlatKeys :: "string list option \<Rightarrow> string list \<times> string list option" where
  "getCustomerProfileFlatKeys flatKeys =
    (case flatKeys of
       None \<Rightarrow> (let ks = generateFlatKeys INITIAL_CUSTOMER_PROFILE [] in (ks, Some ks))
     | Some ks \<Rightarrow> (ks, Some ks))"

subsection \<open>A typed profile as the JavaScript object it is at run time\<close>

text \<open>
  Every key of the interface is present with a value of its type; an optional key is
  present when it has a value.
\<close>

definition optional_key :: "string \<Rightarrow> 'a option \<Rightarrow> ('a \<Rightarrow> jsval) \<Rightarrow> (string \<times> jsval) list" where
  "optional_key key v to_js = (case v of None \<Rightarrow> [] | Some x \<Rightarrow> [(key, to_js x)])"

definition address_to_js :: "Address \<Rightarrow> jsval" where
  "address_to_js a = JObj
    [(''full_address'', JStr (full_address a)),
     (''street'', JStr (street a)),
     (''city'', JStr (city a)),
     (''state'', JStr (Address.state a)),
     (''zip'', JStr (Address.zip a))]"

definition license_to_js :: "DriversLicense \<Rightarrow> jsval" where
  "license_to_js l = JObj
    ([(''number'', JStr (number l)),
      (''expiration'', JStr (expiration l)),
      (''state'', JStr (DriversLicense.state l))]
     @ optional_key ''is_expired'' (is_expired l) JBool)"

definition personal_info_to_js :: "PersonalInfo \<Rightarrow> jsval" where
  "personal_info_to_js p = JObj
    [(''full_name'', JStr (full_name p)),
     (''first_name'', JStr (first_name p)),
     (''last_name'', JStr (last_name p)),
     (''phone'', JStr (PersonalInfo.phone p)),
     (''email'', JStr (email p)),
     (''address'', address_to_js (address p)),
     (''drivers_license'', license_to_js (drivers_license p))]"

definition interest_vehicle_to_js :: "InterestVehicle \<Rightarrow> jsval" where
  "interest_vehicle_to_js v = JObj
    [(''year'', JStr (InterestVehicle.year v)),
     (''make'', JStr (InterestVehicle.make' v)),
     (''model'', JStr (InterestVehicle.model v)),
     (''stock_number'', JStr (stock_number v)),
     (''vin'', JStr (InterestVehicle.vin v))]"

definition trade_vehicle_to_js :: "TradeVehicle \<Rightarrow> jsval" where
  "trade_vehicle_to_js v = JObj
    [(''year'', JStr (TradeVehicle.year v)),
     (''make'', JStr (TradeVehicle.make' v)),
     (''model'', JStr (TradeVehicle.model v)),
     (''vin'', JStr (TradeVehicle.vin v)),
     (''lien_holder'', JStr (lien_holder v)),
     (''payoff_amount'', JNum (payoff_amount v))]"

definition vehicle_info_to_js :: "VehicleInfo \<Rightarrow> jsval" where
  "vehicle_info_to_js v = JObj
    [(''interest_vehicle'', interest_vehicle_to_js (interest_vehicle v)),
     (''trade_vehicle'', trade_vehicle_to_js (trade_vehicle v)),
     (''trade_in'', JBool (trade_in v)),
     (''purchase_type'', JStr (purchase_type v))]"

definition employment_to_js :: "Employment \<Rightarrow> jsval" where
  "employment_to_js e = JObj
    [(''employer'', JStr (employer e)),
     (''position'', JStr (position e)),
     (''income'', JNum (income e))]"

definition reference_to_js :: "Reference \<Rightarrow> jsval" where
  "reference_to_js r = JObj
    [(''name'', JStr (Reference.name r)),
     (''phone'', JStr (Reference.phone r)),
     (''relationship'', JStr (relationship r))]"

definition financial_info_to_js :: "FinancialInfo \<Rightarrow> jsval" where
  "financial_info_to_js f = JObj
    [(''employment'', employment_to_js (employment f)),
     (''financing_needed'', JBool (financing_needed f)),
     (''references'', JArr (map reference_to_js (references f)))]"

definition sales_info_to_js :: "SalesInfo \<Rightarrow> jsval" where
  "sales_info_to_js s = JObj
    [(''stage'', JStr (SalesInfo.stage s)),
     (''salesperson'', JStr (salesperson s))]"

definition profile_to_js :: "CustomerProfile \<Rightarrow> jsval" where
  "profile_to_js c = JObj
    ([(''id'', JStr (CustomerProfile.id c))]
     @ optional_key ''created_at'' (created_at c) JStr
     @ [(''personal_info'', personal_info_to_js (personal_info c)),
        (''vehicle_info'', vehicle_info_to_js (vehicle_info c)),
        (''financial_info'', financial_info_to_js (financial_info c)),
        (''sales_info'', sales_info_to_js (sales_info c))])"

subsection \<open>deepMerge (customerService)\<close>

text \<open>
  \<^verbatim>\<open>output[key] = v\<close> on the plain object \<open>output\<close>: an own key keeps its place and
  gets the new value, a new key is added at the end, which is \<open>map_set\<close>. The key
  \<^verbatim>\<open>__proto__\<close> is different: the assignment goes to the accessor inherited from
  \<^verbatim>\<open>Object.prototype\<close> and stores no property.
\<close>

definition set_property :: "(string \<times> jsval) list \<Rightarrow> string \<Rightarrow> jsval \<Rightarrow> abort + (string \<times> jsval) list" where
  "set_property output key v =
    (if key = ''__proto__'' then Inl (HostProperty key) else Inr (map_set key v output))"

text \<open>
  \<^verbatim>\<open>deepMerge\<close> starts from the spread of \<open>target\<close>. When both arguments are truthy
  it visits the keys of \<open>source\<close>: a truthy value of type \<^verbatim>\<open>object\<close> that is not
  an array is merged into \<^verbatim>\<open>target[key]\<close> recursively; any other value is stored
  unless it is \<^verbatim>\<open>undefined\<close>, \<^verbatim>\<open>null\<close> or the empty string. When \<open>target\<close> or
  \<open>source\<close> is falsy the spread alone is returned, so merging into \<^verbatim>\<open>undefined\<close>
  gives the empty object. The source reads \<^verbatim>\<open>target[key]\<close> for every key, behind
  the truthiness test of \<open>target\<close>, and uses it in the recursive call only; the model
  reads it where it is used. A throw leaves \<^verbatim>\<open>forEach\<close> and the function.
\<close>

function deepMerge :: "jsval \<Rightarrow> jsval \<Rightarrow> abort + jsval" where
  "deepMerge target source =
    (let output = own_properties target
     in if truthy target \<and> truthy source
        then (case foldl (\<lambda>acc (key, sourceValue).
                       case acc of
                         Inl a \<Rightarrow> Inl a
                       | Inr output \<Rightarrow>
                           if truthy sourceValue \<and> typeof sourceValue = ''object'' \<and> \<not> isArray sourceValue
                           then (case js_get target key of
                                   Inl a \<Rightarrow> Inl a
                                 | Inr targetValue \<Rightarrow>
                                     (case deepMerge targetValue sourceValue of
                                        Inl a \<Rightarrow> Inl a
                                      | Inr merged \<Rightarrow> set_property output key merged))
                           else if sourceValue \<noteq> JUndefined \<and> sourceValue \<noteq> JNull \<and> sourceValue \<noteq> JStr ''''
                                then set_property output key sourceValue
                                else Inr output)
                   (Inr output) (own_properties source) of
                Inl a \<Rightarrow> Inl a
              | Inr output \<Rightarrow> Inr (JObj output))
        else Inr (JObj output))"
  by pat_completeness auto
termination
proof (relation "measure (\<lambda>(target, source). size source)", goal_cases)
  case 1
  show ?case by simp
next
  case 2
  have smaller: "size v < size src"
    if "(k, v) \<in> set (own_properties src)" and "typeof v = ''object''" for k v src
  proof (cases src)
    case (JArr xs)
    with that have "v \<in> set xs"
      by (auto dest: set_zip_rightD)
    then have "size v \<le> size_list size xs"
      by (simp add: size_list_estimation')
    with JArr show ?thesis by simp
  next
    case (JObj es)
    with that have "(k, v) \<in> set es" by simp
    then have "size_prod (\<lambda>_. 0) size (k, v) \<le> size_list (size_prod (\<lambda>_. 0) size) es"
      by (simp add: size_list_estimation')
    with JObj show ?thesis by simp
  next
    case (JStr s)
    with that show ?thesis by (auto dest!: set_zip_rightD)
  qed (use that in simp_all)
  from 2 show ?case by (auto intro: smaller)
qed

declare deepMerge.simps [simp del]
declare nat_to_str.simps [simp del]
declare generateFlatKeys.simps [simp del]



text \<open>
  What one round of the loop of \<^verbatim>\<open>deepMerge\<close> decides for the entry \<open>(key, sourceValue)\<close>
  of the source: the value to store under the key, or that nothing is stored.
\<close>

definition merge_entry :: "jsval \<Rightarrow> string \<Rightarrow> jsval \<Rightarrow> abort + jsval option" where
  "merge_entry target key sourceValue =
    (if truthy sourceValue \<and> typeof sourceValue = ''object'' \<and> \<not> isArray sourceValue
     then (case js_get target key of
             Inl a \<Rightarrow> Inl a
           | Inr targetValue \<Rightarrow>
               (case deepMerge targetValue sourceValue of
                  Inl a \<Rightarrow> Inl a
                | Inr merged \<Rightarrow> Inr (Some merged)))
     else if sourceValue \<noteq> JUndefined \<and> sourceValue \<noteq> JNull \<and> sourceValue \<noteq> JStr ''''
          then Inr (Some sourceValue)
          else Inr None)"



section \<open>Preview data and PDF generation (pdfService)\<close>

record FilledField =
  pdfField :: string
  "value" :: string
  sourcePath :: string

text \<open>
  \<^verbatim>\<open>new Date().toLocaleDateString('en-US')\<close> reads the clock. The reading is an
  input of the model: the local calendar date at the moment of the call, printed as
  month, day and year separated by slashes.
\<close>

record LocalDate =
  month :: nat
  day :: nat
  year :: nat

definition toLocaleDateString :: "LocalDate \<Rightarrow> string" where
  "toLocaleDateString d =
     nat_to_str (month d) @ ''/'' @ nat_to_str (day d) @ ''/'' @ nat_to_str (LocalDate.year d)"

text \<open>\<^verbatim>\<open>s.trim()\<close>, for the ASCII white space characters.\<close>

definition is_space :: "char \<Rightarrow> bool" where
  "is_space c = (c \<in> set [CHR '' '', CHR 0x09, CHR 0x0A, CHR 0x0B, CHR 0x0C, CHR 0x0D])"

definition trim :: "string \<Rightarrow> string" where
  "trim s = rev (dropWhile is_space (rev (dropWhile is_space s)))"

text \<open>
  \<^verbatim>\<open>SPECIAL_HANDLERS[key]\<close>: the object literal owns the four computed values. Each
  handler gets the customer; the date handler reads the clock instead, so every
  handler is given the clock reading too. The literal is a plain object, so a key
  it does not own is \<^verbatim>\<open>undefined\<close> unless \<^verbatim>\<open>Object.prototype\<close> supplies it; then
  the source finds a truthy host value and calls it.
\<close>

definition SPECIAL_HANDLERS :: "string \<Rightarrow> abort + (LocalDate \<Rightarrow> CustomerProfile \<Rightarrow> string) option" where
  "SPECIAL_HANDLERS key =
    (if key = ''__CURRENT_DATE__'' then Inr (Some (\<lambda>now c. toLocaleDateString now))
     else if key = ''__SALESPERSON__'' then Inr (Some (\<lambda>now c. SALESPERSON_NAME))
     else if key = ''__INTEREST_VEHICLE_YMM__'' then Inr (Some (\<lambda>now c.
       trim (InterestVehicle.year (interest_vehicle (vehicle_info c)) @ '' '' @
             InterestVehicle.make' (interest_vehicle (vehicle_info c)) @ '' '' @
             InterestVehicle.model (interest_vehicle (vehicle_info c)))))
     else if key = ''__TRADE_VEHICLE_YMM__'' then Inr (Some (\<lambda>now c.
       trim (TradeVehicle.year (trade_vehicle (vehicle_info c)) @ '' '' @
             TradeVehicle.make' (trade_vehicle (vehicle_info c)) @ '' '' @
             TradeVehicle.model (trade_vehicle (vehicle_info c)))))
     else if key \<in> set Object_prototype_names then Inl (HostProperty key)
     else Inr None)"

definition MAPPABLE_SPECIAL_KEYS :: "string list" where
  "MAPPABLE_SPECIAL_KEYS =
    [''__CURRENT_DATE__'', ''__SALESPERSON__'', ''__INTEREST_VEHICLE_YMM__'', ''__TRADE_VEHICLE_YMM__'']"

definition FINANCIAL_FIELDS_TO_SKIP :: "string list" where
  "FINANCIAL_FIELDS_TO_SKIP = [''SalePrice'', ''DownPayment'', ''PayoffAmount'', ''AnnualIncome'', ''SSN'']"

text \<open>
  \<^verbatim>\<open>String(v)\<close>: a string is itself, a number its decimal digits, an array its elements
  joined by commas with \<^verbatim>\<open>null\<close> and \<^verbatim>\<open>undefined\<close> elements left empty. A plain
  object is converted by the \<^verbatim>\<open>toString\<close> it inherits, to the fixed text
  \<^verbatim>\<open>[object Object]\<close>; an object that owns a property \<^verbatim>\<open>toString\<close> (JSON data, so
  not a function) cannot be converted, and \<^verbatim>\<open>String\<close> throws a \<^verbatim>\<open>TypeError\<close>.
\<close>

fun join :: "string \<Rightarrow> string list \<Rightarrow> string" where
  "join sep [] = []"
| "join sep [x] = x"
| "join sep (x # y # ys) = x @ sep @ join sep (y # ys)"

fun js_String :: "jsval \<Rightarrow> abort + string"
  and js_Strings :: "jsval list \<Rightarrow> abort + string list" where
  "js_String JUndefined = Inr ''undefined''"
| "js_String JNull = Inr ''null''"
| "js_String (JBool b) = Inr (if b then ''true'' else ''false'')"
| "js_String (JNum n) = Inr (int_to_str n)"
| "js_String (JStr s) = Inr s"
| "js_String (JArr xs) =
     (case js_Strings xs of
        Inl a \<Rightarrow> Inl a
      | Inr texts \<Rightarrow> Inr (join '','' texts))"
| "js_String (JObj es) =
     (if ''toString'' \<in> set (map fst es)
      then Inl (Thrown (TypeError ''Cannot convert object to primitive value''))
      else Inr ''[object Object]'')"
| "js_Strings [] = Inr []"
| "js_Strings (x # xs) =
     (case (if x = JUndefined \<or> x = JNull then Inr '''' else js_String x) of
        Inl a \<Rightarrow> Inl a
      | Inr text \<Rightarrow>
          (case js_Strings xs of
             Inl a \<Rightarrow> Inl a
           | Inr texts \<Rightarrow> Inr (text # texts)))"

text \<open>
  The saved mapping of a form is a plain object from PDF field names to paths or
  special keys, given here by its own properties; the template service and the clock
  are the environment of the PDF service. The service functions answer with an empty
  mapping, an empty field list or \<^verbatim>\<open>null\<close> when the store fails, so each is a
  total function of the form id.
\<close>

type_synonym FieldMapping = "string \<Rightarrow> string option"

record Env =
  getMappingsForForm :: "string \<Rightarrow> FieldMapping"
  getDiscoveredFields :: "string \<Rightarrow> string list"
  getTemplateFile :: "string \<Rightarrow> string option"
  now :: LocalDate

text \<open>
  \<^verbatim>\<open>mappings[pdfField]\<close>: the mapped path when the mapping owns the field name,
  \<^verbatim>\<open>undefined\<close> when it does not, unless \<^verbatim>\<open>Object.prototype\<close> supplies the name.
\<close>

definition read_mapping :: "FieldMapping \<Rightarrow> string \<Rightarrow> abort + string option" where
  "read_mapping mappings field =
    (case mappings field of
       Some path \<Rightarrow> Inr (Some path)
     | None \<Rightarrow> if field \<in> set Object_prototype_names then Inl (HostProperty field) else Inr None)"

text \<open>
  The formatting of a value for display: \<^verbatim>\<open>undefined\<close>, \<^verbatim>\<open>null\<close>, the empty string
  and the number zero become \<^verbatim>\<open>---\<close>, a boolean becomes \<^verbatim>\<open>Yes\<close> or \<^verbatim>\<open>No\<close>, any
  other value stays.
\<close>

definition format_value :: "jsval \<Rightarrow> jsval" where
  "format_value v =
    (if v = JUndefined \<or> v = JNull \<or> v = JStr '''' then JStr ''---''
     else if typeof v = ''boolean'' then (if truthy v then JStr ''Yes'' else JStr ''No'')
     else if typeof v = ''number'' \<and> v = JNum 0 then JStr ''---''
     else v)"

text \<open>
  One round of the loop of \<^verbatim>\<open>generatePreviewData\<close>: the skip list comes first;
  otherwise the value starts as the empty string, is computed by the special handler
  or read by \<^verbatim>\<open>getValueByPath\<close> when the field has a truthy mapping, is formatted,
  and is converted by \<^verbatim>\<open>String\<close>. A throw leaves the function.
\<close>

definition preview_field :: "LocalDate \<Rightarrow> FieldMapping \<Rightarrow> CustomerProfile \<Rightarrow> string \<Rightarrow> abort + FilledField" where
  "preview_field clock mappings customer field =
    (if field \<in> set FINANCIAL_FIELDS_TO_SKIP
     then Inr \<lparr>pdfField = field, value = ''[Manual Entry]'', sourcePath = ''N/A''\<rparr>
     else
       (case read_mapping mappings field of
          Inl a \<Rightarrow> Inl a
        | Inr mappedPath \<Rightarrow>
            (let computed =
                   (case mappedPath of
                      None \<Rightarrow> Inr (JStr '''')
                    | Some path \<Rightarrow>
                        if truthy_str path
                        then (case SPECIAL_HANDLERS path of
                                Inl a \<Rightarrow> Inl a
                              | Inr (Some handler) \<Rightarrow> Inr (JStr (handler clock customer))
                              | Inr None \<Rightarrow> getValueByPath (profile_to_js customer) path)
                        else Inr (JStr ''''))
             in case computed of
                  Inl a \<Rightarrow> Inl a
                | Inr v \<Rightarrow>
                    (case js_String (format_value v) of
                       Inl a \<Rightarrow> Inl a
                     | Inr text \<Rightarrow>
                         Inr \<lparr>pdfField = field,
                              value = text,
                              sourcePath = (case mappedPath of
                                              Some path \<Rightarrow> if truthy_str path then path else ''Not Mapped''
                                            | None \<Rightarrow> ''Not Mapped'')\<rparr>))))"

fun preview_loop ::
  "LocalDate \<Rightarrow> FieldMapping \<Rightarrow> CustomerProfile \<Rightarrow> string list \<Rightarrow> FilledField list
     \<Rightarrow> abort + FilledField list" where
  "preview_loop clock mappings customer [] filledData = Inr filledData"
| "preview_loop clock mappings customer (field # rest) filledData =
     (case preview_field clock mappings customer field of
        Inl a \<Rightarrow> Inl a
      | Inr filled \<Rightarrow> preview_loop clock mappings customer rest (filledData @ [filled]))"

definition generatePreviewData :: "Env \<Rightarrow> string \<Rightarrow> CustomerProfile \<Rightarrow> abort + FilledField list" where
  "generatePreviewData env formId customer =
    (let mappings = getMappingsForForm env formId;
         discoveredFields = getDiscoveredFields env formId;
         filledData = []
     in preview_loop (now env) mappings customer discoveredFields filledData)"

subsection \<open>generatePdfBytes\<close>

text \<open>
  The PDF library is a capability: documents are values of a type \<open>'doc\<close>, and each
  call either returns the document it leaves behind or throws. \<^verbatim>\<open>getForm\<close> hands
  out the form of a loaded document, \<^verbatim>\<open>getField\<close> throws when the form has no
  field of that name and otherwise tells which \<^verbatim>\<open>instanceof\<close> test the field
  passes. A call that throws leaves the document as it was.
\<close>

datatype PDFFieldClass = PDFTextField | PDFCheckBox | PDFRadioGroup | PDFOtherField

type_synonym bytes = "nat list"

record 'doc PdfLib =
  load :: "string \<Rightarrow> js_error + 'doc"
  getForm :: "'doc \<Rightarrow> js_error + 'doc"
  getField :: "'doc \<Rightarrow> string \<Rightarrow> js_error + PDFFieldClass"
  setText :: "'doc \<Rightarrow> string \<Rightarrow> string \<Rightarrow> js_error + 'doc"
  check :: "'doc \<Rightarrow> string \<Rightarrow> js_error + 'doc"
  uncheck :: "'doc \<Rightarrow> string \<Rightarrow> js_error + 'doc"
  select :: "'doc \<Rightarrow> string \<Rightarrow> string \<Rightarrow> js_error + 'doc"
  flatten :: "'doc \<Rightarrow> js_error + 'doc"
  save :: "'doc \<Rightarrow> js_error + bytes"

text \<open>\<^verbatim>\<open>s.toLowerCase()\<close>, for the ASCII letters.\<close>

definition lower_char :: "char \<Rightarrow> char" where
  "lower_char c =
    (case map_of (List.zip ''ABCDEFGHIJKLMNOPQRSTUVWXYZ'' ''abcdefghijklmnopqrstuvwxyz'') c of
       Some l \<Rightarrow> l
     | None \<Rightarrow> c)"

definition toLowerCase :: "string \<Rightarrow> string" where
  "toLowerCase s = map lower_char s"

text \<open>The body of the \<^verbatim>\<open>try\<close> block: look the field up, then write by its class.\<close>

definition fill_field :: "'doc PdfLib \<Rightarrow> 'doc \<Rightarrow> FilledField \<Rightarrow> js_error + 'doc" where
  "fill_field lib pdfForm fieldData =
    (case getField lib pdfForm (pdfField fieldData) of
       Inl e \<Rightarrow> Inl e
     | Inr field \<Rightarrow>
         (case field of
            PDFTextField \<Rightarrow> setText lib pdfForm (pdfField fieldData) (value fieldData)
          | PDFCheckBox \<Rightarrow>
              if toLowerCase (value fieldData) \<in> set [''yes'', ''true'', ''on'']
              then check lib pdfForm (pdfField fieldData)
              else uncheck lib pdfForm (pdfField fieldData)
          | PDFRadioGroup \<Rightarrow> select lib pdfForm (pdfField fieldData) (value fieldData)
          | PDFOtherField \<Rightarrow> Inr pdfForm))"

text \<open>
  The loop over the preview data. The state is the document and the console; the
  \<^verbatim>\<open>catch\<close> clause writes one warning to the console and the loop goes on with the
  next field.
\<close>

fun fill_loop :: "'doc PdfLib \<Rightarrow> Form \<Rightarrow> FilledField list \<Rightarrow> 'doc \<times> string list \<Rightarrow> 'doc \<times> string list" where
  "fill_loop lib frm [] st = st"
| "fill_loop lib frm (fieldData # rest) (pdfForm, console) =
     (if value fieldData \<noteq> ''---'' \<and> value fieldData \<noteq> ''[Manual Entry]''
      then (case fill_field lib pdfForm fieldData of
              Inr pdfForm' \<Rightarrow> fill_loop lib frm rest (pdfForm', console)
            | Inl error \<Rightarrow>
                fill_loop lib frm rest
                  (pdfForm,
                   console @ [''Could not fill field '' @ [CHR 0x27] @ pdfField fieldData @ [CHR 0x27] @
                              '' on form '' @ [CHR 0x27] @ Form.name frm @ [CHR 0x27] @
                              ''. It may not exist on the PDF.'']))
      else fill_loop lib frm rest (pdfForm, console))"

text \<open>
  \<^verbatim>\<open>generatePdfBytes\<close>: a missing (or empty) template aborts, and so does a throw
  of \<^verbatim>\<open>load\<close>, of \<^verbatim>\<open>getForm\<close> or of \<^verbatim>\<open>generatePreviewData\<close>, none of which is
  inside the \<^verbatim>\<open>try\<close> block; then the fields are filled, the form is flattened and
  the document saved.
\<close>

definition generatePdfBytes :: "Env \<Rightarrow> 'doc PdfLib \<Rightarrow> Form \<Rightarrow> CustomerProfile \<Rightarrow> abort + bytes" where
  "generatePdfBytes env lib frm customer =
    (case getTemplateFile env (Form.id frm) of
       None \<Rightarrow> Inl (Thrown (Error (''Template file not found for form: '' @ Form.name frm)))
     | Some templateBase64 \<Rightarrow>
         if \<not> truthy_str templateBase64
         then Inl (Thrown (Error (''Template file not found for form: '' @ Form.name frm)))
         else
           (case load lib templateBase64 of
              Inl e \<Rightarrow> Inl (Thrown e)
            | Inr pdfDoc \<Rightarrow>
                (case getForm lib pdfDoc of
                   Inl e \<Rightarrow> Inl (Thrown e)
                 | Inr pdfForm \<Rightarrow>
                     (case generatePreviewData env (Form.id frm) customer of
                        Inl a \<Rightarrow> Inl a
                      | Inr previewData \<Rightarrow>
                          (let filled = fst (fill_loop lib frm previewData (pdfForm, []))
                           in case flatten lib filled of
                                Inl e \<Rightarrow> Inl (Thrown e)
                              | Inr flat \<Rightarrow>
                                  (case save lib flat of
                                     Inl e \<Rightarrow> Inl (Thrown e)
                                   | Inr saved \<Rightarrow> Inr saved))))))"

text \<open>
  What the \<^verbatim>\<open>try\<close>/\<^verbatim>\<open>catch\<close> comes to for the document: the write is attempted, and
  a failed attempt leaves the document as it was. A field is written only when its
  preview value is neither of the two placeholders.
\<close>

definition try_fill :: "'doc PdfLib \<Rightarrow> 'doc \<Rightarrow> FilledField \<Rightarrow> 'doc" where
  "try_fill lib pdfForm fieldData =
    (case fill_field lib pdfForm fieldData of
       Inr pdfForm' \<Rightarrow> pdfForm'
     | Inl e \<Rightarrow> pdfForm)"

definition writable :: "FilledField \<Rightarrow> bool" where
  "writable fieldData = (value fieldData \<noteq> ''---'' \<and> value fieldData \<noteq> ''[Manual Entry]'')"

subsection \<open>Example customers\<close>

definition closing_customer :: CustomerProfile where
  "closing_customer =
    \<lparr>CustomerProfile.id = ''c1'', created_at = None,
     personal_info =
       \<lparr>full_name = ''Ann Lee'', first_name = ''Ann'', last_name = ''Lee'', phone = ''555-0100'', email = '''',
        address = \<lparr>full_address = '''', street = '''', city = '''', state = '''', zip = ''''\<rparr>,
        drivers_license = \<lparr>number = ''OH123456'', expiration = '''', state = ''OH'', is_expired = None\<rparr>\<rparr>,
     vehicle_info =
       \<lparr>interest_vehicle =
          \<lparr>InterestVehicle.year = '''', make' = '''', model = '''', stock_number = '''', vin = ''1HGCM82633A004352''\<rparr>,
        trade_vehicle =
          \<lparr>TradeVehicle.year = '''', make' = '''', model = '''', vin = '''', lien_holder = '''', payoff_amount = 0\<rparr>,
        trade_in = True, purchase_type = ''''\<rparr>,
     financial_info =
       \<lparr>employment = \<lparr>employer = '''', position = '''', income = 0\<rparr>,
        financing_needed = True, references = []\<rparr>,
     sales_info = \<lparr>SalesInfo.stage = ''initial_contact'', salesperson = ''Stephen Schreck''\<rparr>\<rparr>"

definition financing_customer :: CustomerProfile where
  "financing_customer =
     closing_customer
       \<lparr>vehicle_info :=
          \<lparr>interest_vehicle =
             \<lparr>InterestVehicle.year = ''2023'', make' = ''Honda'', model = ''Civic'', stock_number = '''', vin = ''''\<rparr>,
           trade_vehicle =
             \<lparr>TradeVehicle.year = '''', make' = '''', model = '''', vin = '''', lien_holder = '''', payoff_amount = 0\<rparr>,
           trade_in = False, purchase_type = ''''\<rparr>\<rparr>"

definition referenced_customer :: CustomerProfile where
  "referenced_customer =
     financing_customer
       \<lparr>financial_info :=
          \<lparr>employment = \<lparr>employer = ''Acme'', position = ''Welder'', income = 52000\<rparr>,
           financing_needed = True,
           references = [\<lparr>Reference.name = ''Bo Lee'', phone = ''555-0101'', relationship = ''brother''\<rparr>]\<rparr>\<rparr>"

text \<open>An environment with one mapped form, read on two consecutive days, and two PDF libraries.\<close>

definition sale_mapping :: FieldMapping where
  "sale_mapping =
     [''SaleDate'' \<mapsto> ''__CURRENT_DATE__'',
      ''Buyer'' \<mapsto> ''personal_info.full_name'',
      ''Vehicle'' \<mapsto> ''__INTEREST_VEHICLE_YMM__'',
      ''TradeIn'' \<mapsto> ''vehicle_info.trade_in'',
      ''SSN'' \<mapsto> ''personal_info.full_name'']"

definition env_day1 :: Env where
  "env_day1 =
    \<lparr>getMappingsForForm = (\<lambda>formId. sale_mapping),
     getDiscoveredFields = (\<lambda>formId. [''SaleDate'', ''Buyer'', ''Vehicle'', ''TradeIn'', ''SSN'', ''Notes'']),
     getTemplateFile = (\<lambda>formId. Some ''JVBERi0xLjcK''),
     now = \<lparr>month = 11, day = 2, year = 2026\<rparr>\<rparr>"

definition env_day2 :: Env where
  "env_day2 = env_day1\<lparr>now := \<lparr>month = 11, day = 3, year = 2026\<rparr>\<rparr>"

text \<open>
  A library whose documents are the lists of writes made so far and whose every
  field lookup throws, and one whose fields are all text fields.
\<close>

definition throwing_lib :: "(string \<times> string) list PdfLib" where
  "throwing_lib =
    \<lparr>load = (\<lambda>t. Inr []),
     getForm = (\<lambda>doc. Inr doc),
     getField = (\<lambda>doc field. Inl (Error ''no such field'')),
     setText = (\<lambda>doc field text. Inr (doc @ [(field, text)])),
     check = (\<lambda>doc field. Inr (doc @ [(field, ''on'')])),
     uncheck = (\<lambda>doc field. Inr (doc @ [(field, ''off'')])),
     select = (\<lambda>doc field opt. Inr (doc @ [(field, opt)])),
     flatten = (\<lambda>doc. Inr doc),
     save = (\<lambda>doc. Inr (map (\<lambda>w. length (snd w)) doc))\<rparr>"

definition text_lib :: "(string \<times> string) list PdfLib" where
  "text_lib = throwing_lib\<lparr>getField := (\<lambda>doc field. Inr PDFTextField)\<rparr>"

definition buyer_mapping :: FieldMapping where
  "buyer_mapping = [''Buyer'' \<mapsto> ''personal_info.full_name'', ''Vehicle'' \<mapsto> ''__INTEREST_VEHICLE_YMM__'']"

section \<open>Properties of stage classification and required forms\<close>

lemma determineStage_cases:
  "determineStage c = ''closing'' \<or> determineStage c = ''financing'' \<or> determineStage c = ''initial_contact''"
  by (simp add: determineStage_def)

lemma closing_customer_stage: "determineStage closing_customer = ''closing''"
  by (simp add: determineStage_def truthy_str_def closing_customer_def)

lemma financing_customer_stage: "determineStage financing_customer = ''financing''"
  by (simp add: determineStage_def truthy_str_def closing_customer_def financing_customer_def)

text \<open>The required forms of each stage, with the two conditional forms where they apply.\<close>

lemma closing_forms:
  "determineStage c = ''closing'' \<Longrightarrow>
   getRequiredForms c =
     (if purchase_type (vehicle_info c) = ''new''
      then [\<lparr>form = \<lparr>Form.id = ''oil_changes_form'', name = ''Oil Changes Form'', stage = ''conditional''\<rparr>,
             reason = ''New Vehicle''\<rparr>]
      else []) @
     (if trade_in (vehicle_info c)
      then [\<lparr>form = \<lparr>Form.id = ''payoff_authorization'', name = ''Payoff Authorization Sheet'', stage = ''conditional''\<rparr>,
             reason = ''Has Trade-In''\<rparr>]
      else []) @
     [\<lparr>form = \<lparr>Form.id = ''delivery_report'', name = ''Delivery Report'', stage = ''always''\<rparr>,
       reason = ''Required for Sale''\<rparr>,
      \<lparr>form = \<lparr>Form.id = ''privacy_policy'', name = ''Privacy Policy'', stage = ''always''\<rparr>,
       reason = ''Required for Sale''\<rparr>,
      \<lparr>form = \<lparr>Form.id = ''deal_check_list'', name = ''Deal Check List'', stage = ''always''\<rparr>,
       reason = ''Required for Sale''\<rparr>]"
  by (simp add: getRequiredForms_def ALL_FORMS_def map_values_def Let_def)

lemma financing_forms:
  "determineStage c = ''financing'' \<Longrightarrow>
   getRequiredForms c =
     [\<lparr>form = \<lparr>Form.id = ''credit_application'', name = ''Credit Application (F&I)'', stage = ''financing''\<rparr>,
       reason = ''Stage: financing''\<rparr>,
      \<lparr>form = \<lparr>Form.id = ''reference_sheet'', name = ''Reference Sheet'', stage = ''financing''\<rparr>,
       reason = ''Stage: financing''\<rparr>] @
     (if purchase_type (vehicle_info c) = ''new''
      then [\<lparr>form = \<lparr>Form.id = ''oil_changes_form'', name = ''Oil Changes Form'', stage = ''conditional''\<rparr>,
             reason = ''New Vehicle''\<rparr>]
      else []) @
     (if trade_in (vehicle_info c)
      then [\<lparr>form = \<lparr>Form.id = ''payoff_authorization'', name = ''Payoff Authorization Sheet'', stage = ''conditional''\<rparr>,
             reason = ''Has Trade-In''\<rparr>]
      else [])"
  by (simp add: getRequiredForms_def ALL_FORMS_def map_values_def Let_def)

lemma initial_forms:
  "determineStage c = ''initial_contact'' \<Longrightarrow>
   getRequiredForms c =
     [\<lparr>form = \<lparr>Form.id = ''interview_sheet'', name = ''Interview Sheet'', stage = ''initial_contact''\<rparr>,
       reason = ''Stage: initial contact''\<rparr>,
      \<lparr>form = \<lparr>Form.id = ''test_drive_agreement'', name = ''Test Drive Agreement'', stage = ''initial_contact''\<rparr>,
       reason = ''Stage: initial contact''\<rparr>] @
     (if purchase_type (vehicle_info c) = ''new''
      then [\<lparr>form = \<lparr>Form.id = ''oil_changes_form'', name = ''Oil Changes Form'', stage = ''conditional''\<rparr>,
             reason = ''New Vehicle''\<rparr>]
      else []) @
     (if trade_in (vehicle_info c)
      then [\<lparr>form = \<lparr>Form.id = ''payoff_authorization'', name = ''Payoff Authorization Sheet'', stage = ''conditional''\<rparr>,
             reason = ''Has Trade-In''\<rparr>]
      else [])"
  by (simp add: getRequiredForms_def ALL_FORMS_def map_values_def Let_def)

text \<open>
  Claim C1. \<^verbatim>\<open>determineStage\<close> answers \<^verbatim>\<open>'closing'\<close> when the interest vehicle's VIN
  and the license number are both non-empty, whatever \<^verbatim>\<open>financing_needed\<close> says;
  otherwise \<^verbatim>\<open>'financing'\<close> when \<^verbatim>\<open>financing_needed\<close> holds and full name and phone
  are non-empty; otherwise \<^verbatim>\<open>'initial_contact'\<close>. Two profiles that agree on these
  five fields are classified alike: nothing else is read.
\<close>

theorem determineStage_priority:
  "(InterestVehicle.vin (interest_vehicle (vehicle_info c)) \<noteq> '''' \<and>
      number (drivers_license (personal_info c)) \<noteq> ''''
      \<longrightarrow> determineStage c = ''closing'') \<and>
   (\<not> (InterestVehicle.vin (interest_vehicle (vehicle_info c)) \<noteq> '''' \<and>
        number (drivers_license (personal_info c)) \<noteq> '''') \<and>
      financing_needed (financial_info c) \<and>
      full_name (personal_info c) \<noteq> '''' \<and> PersonalInfo.phone (personal_info c) \<noteq> ''''
      \<longrightarrow> determineStage c = ''financing'') \<and>
   (\<not> (InterestVehicle.vin (interest_vehicle (vehicle_info c)) \<noteq> '''' \<and>
        number (drivers_license (personal_info c)) \<noteq> '''') \<and>
    \<not> (financing_needed (financial_info c) \<and>
        full_name (personal_info c) \<noteq> '''' \<and> PersonalInfo.phone (personal_info c) \<noteq> '''')
      \<longrightarrow> determineStage c = ''initial_contact'') \<and>
   (InterestVehicle.vin (interest_vehicle (vehicle_info c')) =
      InterestVehicle.vin (interest_vehicle (vehicle_info c)) \<and>
    number (drivers_license (personal_info c')) = number (drivers_license (personal_info c)) \<and>
    financing_needed (financial_info c') = financing_needed (financial_info c) \<and>
    full_name (personal_info c') = full_name (personal_info c) \<and>
    PersonalInfo.phone (personal_info c') = PersonalInfo.phone (personal_info c)
      \<longrightarrow> determineStage c' = determineStage c)"
  by (simp add: determineStage_def truthy_str_def)

theorem determineStage_priority_witness:
  "determineStage closing_customer = ''closing'' \<and>
   financing_needed (financial_info closing_customer) \<and>
   determineStage financing_customer = ''financing'' \<and>
   determineStage (closing_customer\<lparr>sales_info := \<lparr>SalesInfo.stage = ''ongoing'', salesperson = ''''\<rparr>\<rparr>) =
     determineStage closing_customer"
  using determineStage_priority [of closing_customer
          "closing_customer\<lparr>sales_info := \<lparr>SalesInfo.stage = ''ongoing'', salesperson = ''''\<rparr>\<rparr>"]
        determineStage_priority [of financing_customer financing_customer]
  by (simp add: closing_customer_def financing_customer_def)

text \<open>
  Claim C2. On a profile classified \<^verbatim>\<open>'financing'\<close> with no trade-in and an empty
  purchase type, \<^verbatim>\<open>getRequiredForms\<close> returns the catalog's financing-tagged forms in
  catalog order, each with the reason \<^verbatim>\<open>Stage: financing\<close>, and nothing else: they are
  \<^verbatim>\<open>credit_application\<close> and \<^verbatim>\<open>reference_sheet\<close>.
\<close>

theorem getRequiredForms_financing_only:
  "determineStage c = ''financing'' \<and> \<not> trade_in (vehicle_info c) \<and> purchase_type (vehicle_info c) = ''''
   \<longrightarrow> getRequiredForms c =
         map (\<lambda>f. \<lparr>form = f, reason = ''Stage: financing''\<rparr>)
           (filter (\<lambda>f. Form.stage f = ''financing'') ALL_FORMS) \<and>
       map (\<lambda>r. (Form.id (form r), reason r)) (getRequiredForms c) =
         [(''credit_application'', ''Stage: financing''), (''reference_sheet'', ''Stage: financing'')]"
  by (simp add: financing_forms) (simp add: ALL_FORMS_def)

theorem getRequiredForms_financing_only_witness:
  "determineStage financing_customer = ''financing'' \<and>
   \<not> trade_in (vehicle_info financing_customer) \<and>
   purchase_type (vehicle_info financing_customer) = '''' \<and>
   map (\<lambda>r. (Form.id (form r), reason r)) (getRequiredForms financing_customer) =
     [(''credit_application'', ''Stage: financing''), (''reference_sheet'', ''Stage: financing'')]"
proof -
  have "\<not> trade_in (vehicle_info financing_customer)"
    and "purchase_type (vehicle_info financing_customer) = []"
    by (simp_all add: financing_customer_def)
  then show ?thesis
    using getRequiredForms_financing_only [of financing_customer] financing_customer_stage
    by (simp add: ALL_FORMS_def)
qed

text \<open>
  Claim C7, as stated, fails: \<^verbatim>\<open>payoff_authorization\<close> is tagged \<^verbatim>\<open>'conditional'\<close> in the
  catalog, not \<^verbatim>\<open>'always'\<close>, so the closing rule never writes its entry again. On a
  closing customer with a trade-in the entry keeps the reason \<^verbatim>\<open>Has Trade-In\<close>.
\<close>

theorem payoff_reason_overwritten_counterexample:
  "trade_in (vehicle_info closing_customer) \<and>
   determineStage closing_customer = ''closing'' \<and>
   getRequiredForms closing_customer =
     [\<lparr>form = \<lparr>Form.id = ''payoff_authorization'', name = ''Payoff Authorization Sheet'', stage = ''conditional''\<rparr>,
       reason = ''Has Trade-In''\<rparr>,
      \<lparr>form = \<lparr>Form.id = ''delivery_report'', name = ''Delivery Report'', stage = ''always''\<rparr>,
       reason = ''Required for Sale''\<rparr>,
      \<lparr>form = \<lparr>Form.id = ''privacy_policy'', name = ''Privacy Policy'', stage = ''always''\<rparr>,
       reason = ''Required for Sale''\<rparr>,
      \<lparr>form = \<lparr>Form.id = ''deal_check_list'', name = ''Deal Check List'', stage = ''always''\<rparr>,
       reason = ''Required for Sale''\<rparr>] \<and>
   ''Has Trade-In'' \<noteq> ''Required for Sale''"
  using closing_forms [OF closing_customer_stage] closing_customer_stage
  by (simp add: closing_customer_def)

text \<open>
  Claim C7, amended. For every profile with a trade-in that is classified
  \<^verbatim>\<open>'closing'\<close>, \<^verbatim>\<open>payoff_authorization\<close> occurs exactly once among the required
  forms, with the reason \<^verbatim>\<open>Has Trade-In\<close>, at its first-insertion position (first, or
  second after \<^verbatim>\<open>oil_changes_form\<close> for a new vehicle); the closing rule contributes
  \<^verbatim>\<open>delivery_report\<close>, \<^verbatim>\<open>privacy_policy\<close> and \<^verbatim>\<open>deal_check_list\<close> with the reason
  \<^verbatim>\<open>Required for Sale\<close> and no other entry carries that reason.
\<close>

theorem payoff_reason_kept:
  "trade_in (vehicle_info c) \<and> determineStage c = ''closing'' \<longrightarrow>
     filter (\<lambda>r. Form.id (form r) = ''payoff_authorization'') (getRequiredForms c) =
       [\<lparr>form = \<lparr>Form.id = ''payoff_authorization'', name = ''Payoff Authorization Sheet'', stage = ''conditional''\<rparr>,
         reason = ''Has Trade-In''\<rparr>] \<and>
     map (\<lambda>r. Form.id (form r)) (getRequiredForms c) =
       (if purchase_type (vehicle_info c) = ''new'' then [''oil_changes_form''] else []) @
       [''payoff_authorization'', ''delivery_report'', ''privacy_policy'', ''deal_check_list''] \<and>
     map (\<lambda>r. Form.id (form r)) (filter (\<lambda>r. reason r = ''Required for Sale'') (getRequiredForms c)) =
       [''delivery_report'', ''privacy_policy'', ''deal_check_list'']"
  by (simp add: closing_forms)

theorem payoff_reason_kept_witness:
  "trade_in (vehicle_info closing_customer) \<and> determineStage closing_customer = ''closing'' \<and>
   filter (\<lambda>r. Form.id (form r) = ''payoff_authorization'') (getRequiredForms closing_customer) =
       [\<lparr>form = \<lparr>Form.id = ''payoff_authorization'', name = ''Payoff Authorization Sheet'', stage = ''conditional''\<rparr>,
         reason = ''Has Trade-In''\<rparr>]"
proof -
  have "trade_in (vehicle_info closing_customer)"
    by (simp add: closing_customer_def)
  then show ?thesis
    using payoff_reason_kept [of closing_customer] closing_customer_stage
    by simp
qed

text \<open>
  Claim C10. \<^verbatim>\<open>getRequiredForms\<close> never returns an empty list; it has at least two
  entries. A closing profile gets the three \<^verbatim>\<open>'always'\<close> forms; any other profile
  gets, first, the two catalog forms tagged with its stage.
\<close>

theorem getRequiredForms_at_least_two:
  "getRequiredForms c \<noteq> [] \<and> 2 \<le> length (getRequiredForms c) \<and>
   (determineStage c = ''closing'' \<longrightarrow>
      3 \<le> length (getRequiredForms c) \<and>
      set (filter (\<lambda>f. Form.stage f = ''always'') ALL_FORMS) \<subseteq> form ` set (getRequiredForms c) \<and>
      length (filter (\<lambda>f. Form.stage f = ''always'') ALL_FORMS) = 3) \<and>
   (determineStage c \<noteq> ''closing'' \<longrightarrow>
      map form (take 2 (getRequiredForms c)) = filter (\<lambda>f. Form.stage f = determineStage c) ALL_FORMS \<and>
      length (filter (\<lambda>f. Form.stage f = determineStage c) ALL_FORMS) = 2)"
proof -
  consider (closing) "determineStage c = ''closing''"
    | (financing) "determineStage c = ''financing''"
    | (initial) "determineStage c = ''initial_contact''"
    using determineStage_cases [of c] by blast
  then show ?thesis
  proof cases
    case closing
    then show ?thesis
      by (simp add: closing_forms ALL_FORMS_def)
  next
    case financing
    then show ?thesis
      by (simp add: financing_forms ALL_FORMS_def)
  next
    case initial
    then show ?thesis
      by (simp add: initial_forms ALL_FORMS_def)
  qed
qed

theorem getRequiredForms_at_least_two_witness:
  "determineStage closing_customer = ''closing'' \<and> 3 \<le> length (getRequiredForms closing_customer) \<and>
   determineStage financing_customer \<noteq> ''closing'' \<and> 2 \<le> length (getRequiredForms financing_customer)"
  using getRequiredForms_at_least_two [of closing_customer] getRequiredForms_at_least_two [of financing_customer]
    closing_customer_stage financing_customer_stage
  by simp

section \<open>Properties of form readiness\<close>

lemma rule_table_dom:
  "(rule_table formId \<noteq> None) =
   (formId \<in> set (map Form.id ALL_FORMS))"
  by (simp add: rule_table_def ALL_FORMS_def)

lemma rule_table_cases:
  assumes "rule_table formId = Some rules"
  obtains "formId = ''interview_sheet''"
    | "formId = ''test_drive_agreement''"
    | "formId = ''credit_application''"
    | "formId = ''reference_sheet''"
    | "formId = ''delivery_report''"
    | "formId = ''privacy_policy''"
    | "formId = ''deal_check_list''"
    | "formId = ''oil_changes_form''"
    | "formId = ''payoff_authorization''"
  using assms by (auto simp add: rule_table_def split: if_splits)

lemmas readiness_unfold =
  rule_table_def getFormReadiness_def unmet_warnings_def push_if_def truthy_str_def
  need_full_name_def Let_def

lemma readiness_in_table:
  assumes "rule_table formId = Some rules"
  shows "warnings (getFormReadiness formId c) = unmet_warnings rules c"
  using assms
proof (cases rule: rule_table_cases)
  case 1
  with assms have "rules = the (rule_table ''interview_sheet'')" by simp
  with 1 show ?thesis by (simp add: readiness_unfold)
next
  case 2
  with assms have "rules = the (rule_table ''test_drive_agreement'')" by simp
  with 2 show ?thesis by (simp add: readiness_unfold)
next
  case 3
  with assms have "rules = the (rule_table ''credit_application'')" by simp
  with 3 show ?thesis by (simp add: readiness_unfold)
next
  case 4
  with assms have "rules = the (rule_table ''reference_sheet'')" by simp
  with 4 show ?thesis by (simp add: readiness_unfold)
next
  case 5
  with assms have "rules = the (rule_table ''delivery_report'')" by simp
  with 5 show ?thesis by (simp add: readiness_unfold)
next
  case 6
  with assms have "rules = the (rule_table ''privacy_policy'')" by simp
  with 6 show ?thesis by (simp add: readiness_unfold)
next
  case 7
  with assms have "rules = the (rule_table ''deal_check_list'')" by simp
  with 7 show ?thesis by (simp add: readiness_unfold)
next
  case 8
  with assms have "rules = the (rule_table ''oil_changes_form'')" by simp
  with 8 show ?thesis by (simp add: readiness_unfold)
next
  case 9
  with assms have "rules = the (rule_table ''payoff_authorization'')" by simp
  with 9 show ?thesis by (simp add: readiness_unfold)
qed

lemma readiness_flag:
  "isReady (getFormReadiness formId c) = (warnings (getFormReadiness formId c) = [])"
  by (simp add: getFormReadiness_def Let_def)

lemma readiness_outside_table:
  "rule_table formId = None \<Longrightarrow>
   getFormReadiness formId c = \<lparr>isReady = True, warnings = []\<rparr>"
  by (simp add: rule_table_def getFormReadiness_def Let_def split: if_splits)

text \<open>
  Claim C3. For a document id in the rule table, \<^verbatim>\<open>getFormReadiness\<close> reports one
  warning for every unmet requirement of that document, all of them and in table
  order, and \<^verbatim>\<open>isReady\<close> is false exactly when some requirement is unmet. The
  table's ids are the nine catalog ids. For any other id the result is ready with
  no warnings.
\<close>

theorem getFormReadiness_rule_table:
  "(case rule_table formId of
      Some rules \<Rightarrow>
        warnings (getFormReadiness formId c) = map snd (filter (\<lambda>r. fst r c) rules) \<and>
        length (warnings (getFormReadiness formId c)) = length (filter (\<lambda>r. fst r c) rules) \<and>
        (\<not> isReady (getFormReadiness formId c)) = (\<exists>r \<in> set rules. fst r c)
    | None \<Rightarrow> getFormReadiness formId c = \<lparr>isReady = True, warnings = []\<rparr>) \<and>
   ((rule_table formId \<noteq> None) =
      (formId \<in> {''interview_sheet'', ''test_drive_agreement'', ''credit_application'',
                 ''reference_sheet'', ''delivery_report'', ''privacy_policy'', ''deal_check_list'',
                 ''oil_changes_form'', ''payoff_authorization''}))"
proof (cases "rule_table formId")
  case None
  then show ?thesis
    using readiness_outside_table [OF None, of c] rule_table_dom [of formId]
    by (simp add: ALL_FORMS_def)
next
  case (Some rules)
  have w: "warnings (getFormReadiness formId c) = map snd (filter (\<lambda>r. fst r c) rules)"
    using readiness_in_table [OF Some, of c] by (simp add: unmet_warnings_def)
  have "(\<not> isReady (getFormReadiness formId c)) = (filter (\<lambda>r. fst r c) rules \<noteq> [])"
    using w readiness_flag [of formId c] by simp
  also have "\<dots> = (\<exists>r \<in> set rules. fst r c)"
    by (simp add: filter_empty_conv)
  finally show ?thesis
    using w Some rule_table_dom [of formId] by (simp add: ALL_FORMS_def)
qed

theorem getFormReadiness_rule_table_witness:
  "warnings (getFormReadiness ''test_drive_agreement'' closing_customer) =
     [''Missing license expiration date.'', ''Missing vehicle of interest.''] \<and>
   \<not> isReady (getFormReadiness ''test_drive_agreement'' closing_customer) \<and>
   isReady (getFormReadiness ''privacy_policy'' closing_customer) \<and>
   getFormReadiness ''bill_of_sale'' closing_customer = \<lparr>isReady = True, warnings = []\<rparr>"
  using getFormReadiness_rule_table [of "''test_drive_agreement''" closing_customer]
    getFormReadiness_rule_table [of "''privacy_policy''" closing_customer]
    getFormReadiness_rule_table [of "''bill_of_sale''" closing_customer]
  by (simp add: rule_table_def need_full_name_def closing_customer_def)

section \<open>Properties of getValueByPath\<close>

lemma foldl_reduce_step_Inl: "foldl reduce_step (Inl a) parts = Inl a"
  by (induction parts) (simp_all add: reduce_step_def)

text \<open>Once the accumulator is falsy, it is the result, whatever segments remain.\<close>

lemma foldl_reduce_step_falsy:
  "\<not> truthy acc \<Longrightarrow> foldl reduce_step (Inr acc) parts = Inr acc"
  by (induction parts) (simp_all add: reduce_step_def)

text \<open>A segment that a plain object neither owns nor inherits gives \<^verbatim>\<open>undefined\<close>.\<close>

lemma reduce_step_missing:
  "map_of es part = None \<Longrightarrow> part \<notin> set Object_prototype_names \<Longrightarrow>
   reduce_step (Inr (JObj es)) part = Inr JUndefined"
  by (simp add: reduce_step_def)

text \<open>
  The guard \<^verbatim>\<open>acc &&\<close> keeps the property read away from \<^verbatim>\<open>undefined\<close> and
  \<^verbatim>\<open>null\<close>: a run over JSON data returns, or it reaches a host property, and only
  from there on can the source throw.
\<close>

lemma reduce_step_guarded: "reduce_step (Inr acc) part \<noteq> Inl (Thrown e)"
  by (cases acc) (simp_all add: reduce_step_def split: option.splits)

lemma foldl_reduce_step_guarded: "foldl reduce_step (Inr acc) parts \<noteq> Inl (Thrown e)"
proof (induction parts arbitrary: acc)
  case Nil
  show ?case by simp
next
  case (Cons part parts)
  show ?case
  proof (cases "reduce_step (Inr acc) part")
    case (Inl a)
    with reduce_step_guarded [of acc part e] show ?thesis
      by (simp add: foldl_reduce_step_Inl)
  next
    case (Inr v)
    with Cons.IH [of v] show ?thesis by simp
  qed
qed

lemma getValueByPath_guarded: "getValueByPath obj path \<noteq> Inl (Thrown e)"
  by (simp add: getValueByPath_def foldl_reduce_step_guarded)

lemmas path_unfold =
  getValueByPath_def reduce_step_def INITIAL_CUSTOMER_PROFILE_def

text \<open>
  Claim C5 says that \<^verbatim>\<open>getValueByPath\<close> answers \<^verbatim>\<open>undefined\<close> when an intermediate
  segment resolves to an empty string, zero or \<^verbatim>\<open>false\<close> while segments remain.
  The code answers that falsy value itself: on the initial profile the path through
  the empty \<^verbatim>\<open>full_name\<close> gives the empty string, the path through the zero
  \<^verbatim>\<open>payoff_amount\<close> gives \<open>0\<close>, the path through \<^verbatim>\<open>trade_in\<close> gives \<^verbatim>\<open>false\<close>, and
  a path through \<^verbatim>\<open>null\<close> gives \<^verbatim>\<open>null\<close>.
\<close>

theorem getValueByPath_falsy_intermediate:
  "getValueByPath (JObj INITIAL_CUSTOMER_PROFILE) ''personal_info.full_name.first'' = Inr (JStr '''') \<and>
   getValueByPath (JObj INITIAL_CUSTOMER_PROFILE) ''vehicle_info.trade_vehicle.payoff_amount.cents'' = Inr (JNum 0) \<and>
   getValueByPath (JObj INITIAL_CUSTOMER_PROFILE) ''vehicle_info.trade_in.value'' = Inr (JBool False) \<and>
   getValueByPath (JObj [(''personal_info'', JNull)]) ''personal_info.full_name'' = Inr JNull"
  by (simp add: path_unfold)

section \<open>Properties of deepMerge\<close>


text \<open>The loop of \<^verbatim>\<open>deepMerge\<close> in terms of what each round decides.\<close>

lemma deepMerge_rounds:
  "deepMerge target source =
    (if truthy target \<and> truthy source
     then (case foldl (\<lambda>acc (key, sv).
                    case acc of
                      Inl a \<Rightarrow> Inl a
                    | Inr out \<Rightarrow>
                        (case merge_entry target key sv of
                           Inl a \<Rightarrow> Inl a
                         | Inr None \<Rightarrow> Inr out
                         | Inr (Some x) \<Rightarrow> set_property out key x))
                (Inr (own_properties target)) (own_properties source) of
             Inl a \<Rightarrow> Inl a
           | Inr out \<Rightarrow> Inr (JObj out))
     else Inr (JObj (own_properties target)))"
proof -
  have "(\<lambda>acc (key, sourceValue).
           case acc of
             Inl a \<Rightarrow> Inl a
           | Inr output \<Rightarrow>
               if truthy sourceValue \<and> typeof sourceValue = ''object'' \<and> \<not> isArray sourceValue
               then (case js_get target key of
                       Inl a \<Rightarrow> Inl a
                     | Inr targetValue \<Rightarrow>
                         (case deepMerge targetValue sourceValue of
                            Inl a \<Rightarrow> Inl a
                          | Inr merged \<Rightarrow> set_property output key merged))
               else if sourceValue \<noteq> JUndefined \<and> sourceValue \<noteq> JNull \<and> sourceValue \<noteq> JStr ''''
                    then set_property output key sourceValue
                    else Inr output) =
        (\<lambda>acc (key, sv).
           case acc of
             Inl a \<Rightarrow> Inl a
           | Inr out \<Rightarrow>
               (case merge_entry target key sv of
                  Inl a \<Rightarrow> Inl a
                | Inr None \<Rightarrow> Inr out
                | Inr (Some x) \<Rightarrow> set_property out key x))"
    by (auto simp add: fun_eq_iff merge_entry_def split: sum.splits)
  then show ?thesis
    by (subst deepMerge.simps) (simp add: Let_def)
qed





lemma plain_object_test:
  "(truthy v \<and> typeof v = ''object'' \<and> \<not> isArray v) = (\<exists>es. v = JObj es)"
  by (cases v) simp_all

text \<open>A flat update, and any update whose nested merges return, runs to its end.\<close>

lemma foldl_rounds_return:
  assumes "\<And>key sv. (key, sv) \<in> set s \<Longrightarrow> key \<noteq> ''__proto__'' \<and> (\<exists>y. G key sv = Inr y)"
  shows "\<exists>r. foldl (\<lambda>acc (key, sv).
            case acc of
              Inl a \<Rightarrow> Inl a
            | Inr out \<Rightarrow>
                (case G key sv of
                   Inl a \<Rightarrow> Inl a
                 | Inr None \<Rightarrow> Inr out
                 | Inr (Some x) \<Rightarrow> set_property out key x)) (Inr out0) s = Inr r"
  using assms
proof (induction s arbitrary: out0)
  case Nil
  show ?case by simp
next
  case (Cons e s)
  obtain key sv where e: "e = (key, sv)" by (cases e)
  from Cons.prems [of key sv] e obtain y where y: "key \<noteq> ''__proto__''" "G key sv = Inr y"
    by auto
  have rest: "key \<noteq> ''__proto__'' \<and> (\<exists>y. G key sv = Inr y)" if "(key, sv) \<in> set s" for key sv
    by (rule Cons.prems) (simp add: that)
  show ?case
    using e y Cons.IH [OF rest]
    by (cases y) (simp_all add: set_property_def)
qed

lemma deepMerge_returns:
  assumes "\<And>key sv. (key, sv) \<in> set s \<Longrightarrow>
             key \<noteq> ''__proto__'' \<and>
             (\<forall>es. sv = JObj es \<longrightarrow>
                (\<exists>tv m. js_get (JObj t) key = Inr tv \<and> deepMerge tv sv = Inr m))"
  shows "\<exists>r. deepMerge (JObj t) (JObj s) = Inr (JObj r)"
proof -
  have "key \<noteq> ''__proto__'' \<and> (\<exists>y. merge_entry (JObj t) key sv = Inr y)"
    if "(key, sv) \<in> set s" for key sv
  proof (cases "\<exists>es. sv = JObj es")
    case True
    then obtain es where es: "sv = JObj es" by blast
    with assms [OF that] obtain tv m
      where "js_get (JObj t) key = Inr tv" "deepMerge tv sv = Inr m"
      by blast
    with es have "merge_entry (JObj t) key sv = Inr (Some m)"
      by (simp add: merge_entry_def del: js_get.simps)
    with assms [OF that] show ?thesis by simp
  next
    case False
    then have "\<not> (truthy sv \<and> typeof sv = ''object'' \<and> \<not> isArray sv)"
      by (simp add: plain_object_test)
    then have "merge_entry (JObj t) key sv =
        (if sv \<noteq> JUndefined \<and> sv \<noteq> JNull \<and> sv \<noteq> JStr []
         then Inr (Some sv) else Inr None)"
      unfolding merge_entry_def by (rule if_not_P)
    then have "\<exists>y. merge_entry (JObj t) key sv = Inr y"
      by simp
    with assms [OF that] show ?thesis by simp
  qed
  from foldl_rounds_return [of s "merge_entry (JObj t)" t, OF this]
  show ?thesis
    by (subst deepMerge_rounds) auto
qed







section \<open>Properties of generateFlatKeys\<close>

lemma foldl_append_acc:
  "foldl (\<lambda>acc e. acc @ g e) acc0 xs = acc0 @ concat (map g xs)"
  by (induction xs arbitrary: acc0) simp_all

lemma generateFlatKeys_concat:
  "generateFlatKeys obj path =
     concat (map (\<lambda>(key, v).
                    case v of
                      JObj es \<Rightarrow> generateFlatKeys es (if path \<noteq> [] then path @ ''.'' @ key else key)
                    | _ \<Rightarrow> [if path \<noteq> [] then path @ ''.'' @ key else key]) obj)"
proof -
  have "generateFlatKeys obj path =
     foldl (\<lambda>acc e. acc @ (case e of (key, v) \<Rightarrow>
                    case v of
                      JObj es \<Rightarrow> generateFlatKeys es (if path \<noteq> [] then path @ ''.'' @ key else key)
                    | _ \<Rightarrow> [if path \<noteq> [] then path @ ''.'' @ key else key])) [] obj"
    unfolding generateFlatKeys.simps [of obj path] Let_def
    by (rule arg_cong [where f = "\<lambda>f. foldl f [] obj"])
       (auto simp add: fun_eq_iff split: jsval.splits)
  then show ?thesis
    by (simp add: foldl_append_acc)
qed

lemma generateFlatKeys_append:
  "generateFlatKeys (xs @ ys) path = generateFlatKeys xs path @ generateFlatKeys ys path"
  by (subst (1 2 3) generateFlatKeys_concat) simp

lemma generateFlatKeys_list_entry:
  "generateFlatKeys (before @ [(key, JArr xs)] @ after) path =
     generateFlatKeys before path @ [if path \<noteq> [] then path @ ''.'' @ key else key] @
     generateFlatKeys after path"
proof -
  have "generateFlatKeys [(key, JArr xs)] path = [if path \<noteq> [] then path @ ''.'' @ key else key]"
    by (simp add: generateFlatKeys.simps [of "[(key, JArr xs)]"])
  then show ?thesis
    by (simp only: generateFlatKeys_append)
qed

lemma initial_flat_keys:
  "generateFlatKeys INITIAL_CUSTOMER_PROFILE [] =
    [''personal_info.full_name'', ''personal_info.first_name'', ''personal_info.last_name'',
     ''personal_info.phone'', ''personal_info.email'',
     ''personal_info.address.full_address'', ''personal_info.address.street'',
     ''personal_info.address.city'', ''personal_info.address.state'', ''personal_info.address.zip'',
     ''personal_info.drivers_license.number'', ''personal_info.drivers_license.expiration'',
     ''personal_info.drivers_license.state'',
     ''vehicle_info.interest_vehicle.year'', ''vehicle_info.interest_vehicle.make'',
     ''vehicle_info.interest_vehicle.model'', ''vehicle_info.interest_vehicle.stock_number'',
     ''vehicle_info.interest_vehicle.vin'',
     ''vehicle_info.trade_vehicle.year'', ''vehicle_info.trade_vehicle.make'',
     ''vehicle_info.trade_vehicle.model'', ''vehicle_info.trade_vehicle.vin'',
     ''vehicle_info.trade_vehicle.lien_holder'', ''vehicle_info.trade_vehicle.payoff_amount'',
     ''vehicle_info.trade_in'', ''vehicle_info.purchase_type'',
     ''financial_info.employment.employer'', ''financial_info.employment.position'',
     ''financial_info.employment.income'',
     ''financial_info.financing_needed'', ''financial_info.references'',
     ''sales_info.stage'', ''sales_info.salesperson'']"
  by (simp add: INITIAL_CUSTOMER_PROFILE_def generateFlatKeys.simps)


section \<open>Resolving the flat keys on a typed profile\<close>

lemma walk_Nil: "foldl reduce_step r [] = r"
  by simp

lemma walk_object:
  "foldl reduce_step (Inr (JObj es)) (part # parts) =
     (case map_of es part of
        Some v \<Rightarrow> foldl reduce_step (Inr v) parts
      | None \<Rightarrow>
          if part \<in> set Object_prototype_names then Inl (HostProperty part)
          else foldl reduce_step (Inr JUndefined) parts)"
  by (simp add: reduce_step_def foldl_reduce_step_Inl split: option.splits)

lemma map_of_entry:
  "map_of ((k, v) # es) key = (if k = key then Some v else map_of es key)"
  by simp

lemma map_of_optional_key:
  "key \<noteq> k \<Longrightarrow> map_of (optional_key k x to_js @ es) key = map_of es key"
  by (simp add: optional_key_def map_add_def split: option.splits)

lemmas to_js_unfold =
  profile_to_js_def personal_info_to_js_def address_to_js_def license_to_js_def
  vehicle_info_to_js_def interest_vehicle_to_js_def trade_vehicle_to_js_def
  financial_info_to_js_def employment_to_js_def sales_info_to_js_def

lemmas walk_simps =
  walk_object walk_Nil map_of_entry map_of_optional_key append.simps list.inject char.inject
  simp_thms if_True if_False option.case

lemma personal_split:
  "js_split CHR ''.'' ''personal_info.full_name'' = [''personal_info'', ''full_name'']"
  "js_split CHR ''.'' ''personal_info.first_name'' = [''personal_info'', ''first_name'']"
  "js_split CHR ''.'' ''personal_info.last_name'' = [''personal_info'', ''last_name'']"
  "js_split CHR ''.'' ''personal_info.phone'' = [''personal_info'', ''phone'']"
  "js_split CHR ''.'' ''personal_info.email'' = [''personal_info'', ''email'']"
  "js_split CHR ''.'' ''personal_info.address.full_address'' = [''personal_info'', ''address'', ''full_address'']"
  "js_split CHR ''.'' ''personal_info.address.street'' = [''personal_info'', ''address'', ''street'']"
  "js_split CHR ''.'' ''personal_info.address.city'' = [''personal_info'', ''address'', ''city'']"
  "js_split CHR ''.'' ''personal_info.address.state'' = [''personal_info'', ''address'', ''state'']"
  "js_split CHR ''.'' ''personal_info.address.zip'' = [''personal_info'', ''address'', ''zip'']"
  "js_split CHR ''.'' ''personal_info.drivers_license.number'' = [''personal_info'', ''drivers_license'', ''number'']"
  "js_split CHR ''.'' ''personal_info.drivers_license.expiration'' = [''personal_info'', ''drivers_license'', ''expiration'']"
  "js_split CHR ''.'' ''personal_info.drivers_license.state'' = [''personal_info'', ''drivers_license'', ''state'']"
  by simp_all

lemma personal_paths:
  "getValueByPath (profile_to_js c) ''personal_info.full_name'' =
     Inr (JStr (full_name (personal_info c)))"
  "getValueByPath (profile_to_js c) ''personal_info.first_name'' =
     Inr (JStr (first_name (personal_info c)))"
  "getValueByPath (profile_to_js c) ''personal_info.last_name'' =
     Inr (JStr (last_name (personal_info c)))"
  "getValueByPath (profile_to_js c) ''personal_info.phone'' =
     Inr (JStr (PersonalInfo.phone (personal_info c)))"
  "getValueByPath (profile_to_js c) ''personal_info.email'' =
     Inr (JStr (email (personal_info c)))"
  "getValueByPath (profile_to_js c) ''personal_info.address.full_address'' =
     Inr (JStr (full_address (address (personal_info c))))"
  "getValueByPath (profile_to_js c) ''personal_info.address.street'' =
     Inr (JStr (street (address (personal_info c))))"
  "getValueByPath (profile_to_js c) ''personal_info.address.city'' =
     Inr (JStr (city (address (personal_info c))))"
  "getValueByPath (profile_to_js c) ''personal_info.address.state'' =
     Inr (JStr (Address.state (address (personal_info c))))"
  "getValueByPath (profile_to_js c) ''personal_info.address.zip'' =
     Inr (JStr (Address.zip (address (personal_info c))))"
  "getValueByPath (profile_to_js c) ''personal_info.drivers_license.number'' =
     Inr (JStr (number (drivers_license (personal_info c))))"
  "getValueByPath (profile_to_js c) ''personal_info.drivers_license.expiration'' =
     Inr (JStr (expiration (drivers_license (personal_info c))))"
  "getValueByPath (profile_to_js c) ''personal_info.drivers_license.state'' =
     Inr (JStr (DriversLicense.state (drivers_license (personal_info c))))"
  unfolding getValueByPath_def personal_split to_js_unfold
  by (simp_all only: walk_simps)

lemma vehicle_split:
  "js_split CHR ''.'' ''vehicle_info.interest_vehicle.year'' = [''vehicle_info'', ''interest_vehicle'', ''year'']"
  "js_split CHR ''.'' ''vehicle_info.interest_vehicle.make'' = [''vehicle_info'', ''interest_vehicle'', ''make'']"
  "js_split CHR ''.'' ''vehicle_info.interest_vehicle.model'' = [''vehicle_info'', ''interest_vehicle'', ''model'']"
  "js_split CHR ''.'' ''vehicle_info.interest_vehicle.stock_number'' = [''vehicle_info'', ''interest_vehicle'', ''stock_number'']"
  "js_split CHR ''.'' ''vehicle_info.interest_vehicle.vin'' = [''vehicle_info'', ''interest_vehicle'', ''vin'']"
  "js_split CHR ''.'' ''vehicle_info.trade_vehicle.year'' = [''vehicle_info'', ''trade_vehicle'', ''year'']"
  "js_split CHR ''.'' ''vehicle_info.trade_vehicle.make'' = [''vehicle_info'', ''trade_vehicle'', ''make'']"
  "js_split CHR ''.'' ''vehicle_info.trade_vehicle.model'' = [''vehicle_info'', ''trade_vehicle'', ''model'']"
  "js_split CHR ''.'' ''vehicle_info.trade_vehicle.vin'' = [''vehicle_info'', ''trade_vehicle'', ''vin'']"
  "js_split CHR ''.'' ''vehicle_info.trade_vehicle.lien_holder'' = [''vehicle_info'', ''trade_vehicle'', ''lien_holder'']"
  "js_split CHR ''.'' ''vehicle_info.trade_vehicle.payoff_amount'' = [''vehicle_info'', ''trade_vehicle'', ''payoff_amount'']"
  "js_split CHR ''.'' ''vehicle_info.trade_in'' = [''vehicle_info'', ''trade_in'']"
  "js_split CHR ''.'' ''vehicle_info.purchase_type'' = [''vehicle_info'', ''purchase_type'']"
  by simp_all

lemma vehicle_paths:
  "getValueByPath (profile_to_js c) ''vehicle_info.interest_vehicle.year'' =
     Inr (JStr (InterestVehicle.year (interest_vehicle (vehicle_info c))))"
  "getValueByPath (profile_to_js c) ''vehicle_info.interest_vehicle.make'' =
     Inr (JStr (InterestVehicle.make' (interest_vehicle (vehicle_info c))))"
  "getValueByPath (profile_to_js c) ''vehicle_info.interest_vehicle.model'' =
     Inr (JStr (InterestVehicle.model (interest_vehicle (vehicle_info c))))"
  "getValueByPath (profile_to_js c) ''vehicle_info.interest_vehicle.stock_number'' =
     Inr (JStr (stock_number (interest_vehicle (vehicle_info c))))"
  "getValueByPath (profile_to_js c) ''vehicle_info.interest_vehicle.vin'' =
     Inr (JStr (InterestVehicle.vin (interest_vehicle (vehicle_info c))))"
  "getValueByPath (profile_to_js c) ''vehicle_info.trade_vehicle.year'' =
     Inr (JStr (TradeVehicle.year (trade_vehicle (vehicle_info c))))"
  "getValueByPath (profile_to_js c) ''vehicle_info.trade_vehicle.make'' =
     Inr (JStr (TradeVehicle.make' (trade_vehicle (vehicle_info c))))"
  "getValueByPath (profile_to_js c) ''vehicle_info.trade_vehicle.model'' =
     Inr (JStr (TradeVehicle.model (trade_vehicle (vehicle_info c))))"
  "getValueByPath (profile_to_js c) ''vehicle_info.trade_vehicle.vin'' =
     Inr (JStr (TradeVehicle.vin (trade_vehicle (vehicle_info c))))"
  "getValueByPath (profile_to_js c) ''vehicle_info.trade_vehicle.lien_holder'' =
     Inr (JStr (lien_holder (trade_vehicle (vehicle_info c))))"
  "getValueByPath (profile_to_js c) ''vehicle_info.trade_vehicle.payoff_amount'' =
     Inr (JNum (payoff_amount (trade_vehicle (vehicle_info c))))"
  "getValueByPath (profile_to_js c) ''vehicle_info.trade_in'' =
     Inr (JBool (trade_in (vehicle_info c)))"
  "getValueByPath (profile_to_js c) ''vehicle_info.purchase_type'' =
     Inr (JStr (purchase_type (vehicle_info c)))"
  unfolding getValueByPath_def vehicle_split to_js_unfold
  by (simp_all only: walk_simps)

lemma financial_sales_split:
  "js_split CHR ''.'' ''financial_info.employment.employer'' = [''financial_info'', ''employment'', ''employer'']"
  "js_split CHR ''.'' ''financial_info.employment.position'' = [''financial_info'', ''employment'', ''position'']"
  "js_split CHR ''.'' ''financial_info.employment.income'' = [''financial_info'', ''employment'', ''income'']"
  "js_split CHR ''.'' ''financial_info.financing_needed'' = [''financial_info'', ''financing_needed'']"
  "js_split CHR ''.'' ''financial_info.references'' = [''financial_info'', ''references'']"
  "js_split CHR ''.'' ''sales_info.stage'' = [''sales_info'', ''stage'']"
  "js_split CHR ''.'' ''sales_info.salesperson'' = [''sales_info'', ''salesperson'']"
  by simp_all

lemma financial_sales_paths:
  "getValueByPath (profile_to_js c) ''financial_info.employment.employer'' =
     Inr (JStr (employer (employment (financial_info c))))"
  "getValueByPath (profile_to_js c) ''financial_info.employment.position'' =
     Inr (JStr (position (employment (financial_info c))))"
  "getValueByPath (profile_to_js c) ''financial_info.employment.income'' =
     Inr (JNum (income (employment (financial_info c))))"
  "getValueByPath (profile_to_js c) ''financial_info.financing_needed'' =
     Inr (JBool (financing_needed (financial_info c)))"
  "getValueByPath (profile_to_js c) ''financial_info.references'' =
     Inr (JArr (map reference_to_js (references (financial_info c))))"
  "getValueByPath (profile_to_js c) ''sales_info.stage'' =
     Inr (JStr (SalesInfo.stage (sales_info c)))"
  "getValueByPath (profile_to_js c) ''sales_info.salesperson'' =
     Inr (JStr (salesperson (sales_info c)))"
  unfolding getValueByPath_def financial_sales_split to_js_unfold
  by (simp_all only: walk_simps)

text \<open>
  Claim C6. Every path that \<^verbatim>\<open>getCustomerProfileFlatKeys\<close> produces from the initial
  profile resolves, by \<^verbatim>\<open>getValueByPath\<close>, to a value other than \<^verbatim>\<open>undefined\<close> on
  every profile that has all the keys of its type; a second call answers from the
  cache with the same paths. The list \<^verbatim>\<open>financial_info.references\<close> is one leaf
  path and no path leads below it; in general an entry whose value is a list yields
  exactly its own path, whatever the elements of the list are.
\<close>

theorem flat_keys_resolve:
  "(\<forall>path \<in> set (fst (getCustomerProfileFlatKeys None)).
      \<exists>v. getValueByPath (profile_to_js c) path = Inr v \<and> v \<noteq> JUndefined) \<and>
   getCustomerProfileFlatKeys (snd (getCustomerProfileFlatKeys None)) = getCustomerProfileFlatKeys None \<and>
   ''financial_info.references'' \<in> set (fst (getCustomerProfileFlatKeys None)) \<and>
   (\<forall>path \<in> set (fst (getCustomerProfileFlatKeys None)).
      take (length ''financial_info.references.'') path \<noteq> ''financial_info.references.'') \<and>
   generateFlatKeys (before @ [(key, JArr xs)] @ after) prefix =
     generateFlatKeys before prefix @ [if prefix \<noteq> [] then prefix @ ''.'' @ key else key] @
     generateFlatKeys after prefix"
proof -
  have keys: "fst (getCustomerProfileFlatKeys None) = generateFlatKeys INITIAL_CUSTOMER_PROFILE []"
    by (simp add: getCustomerProfileFlatKeys_def Let_def)
  have resolve: "\<forall>path \<in> set (fst (getCustomerProfileFlatKeys None)).
      \<exists>v. getValueByPath (profile_to_js c) path = Inr v \<and> v \<noteq> JUndefined"
    unfolding keys initial_flat_keys
    by (simp add: personal_paths vehicle_paths financial_sales_paths)
  have cached: "getCustomerProfileFlatKeys (snd (getCustomerProfileFlatKeys None)) =
      getCustomerProfileFlatKeys None"
    by (simp add: getCustomerProfileFlatKeys_def Let_def)
  have leaf: "''financial_info.references'' \<in> set (fst (getCustomerProfileFlatKeys None))"
    unfolding keys initial_flat_keys by simp
  have below: "\<forall>path \<in> set (fst (getCustomerProfileFlatKeys None)).
      take (length ''financial_info.references.'') path \<noteq> ''financial_info.references.''"
    unfolding keys initial_flat_keys by simp
  show ?thesis
    using resolve cached leaf below generateFlatKeys_list_entry [of before key xs after prefix]
    by blast
qed

theorem flat_keys_resolve_witness:
  "''financial_info.references'' \<in> set (fst (getCustomerProfileFlatKeys None)) \<and>
   getValueByPath (profile_to_js referenced_customer) ''financial_info.references'' =
     Inr (JArr [JObj [(''name'', JStr ''Bo Lee''), (''phone'', JStr ''555-0101''),
                      (''relationship'', JStr ''brother'')]]) \<and>
   generateFlatKeys [(''references'', JArr [JObj [(''name'', JStr ''Bo Lee'')]])] ''financial_info'' =
     [''financial_info.references'']"
proof -
  have v: "getValueByPath (profile_to_js referenced_customer) ''financial_info.references'' =
     Inr (JArr [JObj [(''name'', JStr ''Bo Lee''), (''phone'', JStr ''555-0101''),
                      (''relationship'', JStr ''brother'')]])"
    by (simp add: financial_sales_paths referenced_customer_def reference_to_js_def)
  have e: "generateFlatKeys [] ''financial_info'' = []"
    by (simp add: generateFlatKeys.simps)
  show ?thesis
    using flat_keys_resolve [of referenced_customer "[]" "''references''"
        "[JObj [(''name'', JStr ''Bo Lee'')]]" "[]" "''financial_info''"] v e
    by simp
qed

section \<open>Properties of the preview data\<close>

text \<open>Only the handler of \<^verbatim>\<open>__CURRENT_DATE__\<close> looks at the clock, and only at the printed date.\<close>

lemma handler_clock:
  "SPECIAL_HANDLERS key = Inr (Some handler) \<Longrightarrow>
   key \<noteq> ''__CURRENT_DATE__'' \<or> toLocaleDateString d1 = toLocaleDateString d2 \<Longrightarrow>
   handler d1 c = handler d2 c"
  by (auto simp add: SPECIAL_HANDLERS_def split: if_splits)

lemma read_mapping_own: "read_mapping mappings field = Inr (Some path) \<Longrightarrow> mappings field = Some path"
  by (simp add: read_mapping_def split: option.splits if_splits)

lemma preview_field_clock:
  assumes "toLocaleDateString d1 = toLocaleDateString d2 \<or>
           (field \<notin> set FINANCIAL_FIELDS_TO_SKIP \<longrightarrow> mappings field \<noteq> Some ''__CURRENT_DATE__'')"
  shows "preview_field d1 mappings c field = preview_field d2 mappings c field"
proof (cases "field \<in> set FINANCIAL_FIELDS_TO_SKIP")
  case True
  then show ?thesis by (simp add: preview_field_def)
next
  case False
  show ?thesis
  proof (cases "read_mapping mappings field")
    case (Inl a)
    with False show ?thesis by (simp add: preview_field_def)
  next
    case (Inr mappedPath)
    show ?thesis
    proof (cases mappedPath)
      case None
      with False Inr show ?thesis by (simp add: preview_field_def)
    next
      case (Some path)
      with Inr have own: "mappings field = Some path"
        by (simp add: read_mapping_own)
      show ?thesis
      proof (cases "SPECIAL_HANDLERS path")
        case (Inl a)
        with False Some \<open>read_mapping mappings field = Inr mappedPath\<close> show ?thesis
          by (simp add: preview_field_def)
      next
        case handlers: (Inr found)
        show ?thesis
        proof (cases found)
          case None
          with False Some handlers \<open>read_mapping mappings field = Inr mappedPath\<close> show ?thesis
            by (simp add: preview_field_def)
        next
          case found: (Some handler)
          from assms False own
          have "path \<noteq> ''__CURRENT_DATE__'' \<or> toLocaleDateString d1 = toLocaleDateString d2"
            by auto
          with handlers found have "handler d1 c = handler d2 c"
            by (intro handler_clock [of path]) simp_all
          with False Some handlers found \<open>read_mapping mappings field = Inr mappedPath\<close> show ?thesis
            by (simp add: preview_field_def)
        qed
      qed
    qed
  qed
qed

lemma preview_loop_clock:
  assumes "\<And>field. field \<in> set names \<Longrightarrow>
             preview_field d1 mappings c field = preview_field d2 mappings c field"
  shows "preview_loop d1 mappings c names acc = preview_loop d2 mappings c names acc"
  using assms
proof (induction names arbitrary: acc)
  case Nil
  show ?case by simp
next
  case (Cons field names)
  have "preview_field d1 mappings c field = preview_field d2 mappings c field"
    using Cons.prems by simp
  moreover have "preview_loop d1 mappings c names acc' = preview_loop d2 mappings c names acc'" for acc'
    using Cons.IH Cons.prems by simp
  ultimately show ?case
    by (simp split: sum.splits)
qed

lemma nat_to_str_digits:
  "nat_to_str 2 = ''2''" "nat_to_str 3 = ''3''" "nat_to_str 11 = ''11''" "nat_to_str 2026 = ''2026''"
  by (simp_all add: nat_to_str.simps digit_char_def)

lemma day1_preview:
  "generatePreviewData env_day1 formId closing_customer =
     Inr [\<lparr>pdfField = ''SaleDate'', value = ''11/2/2026'', sourcePath = ''__CURRENT_DATE__''\<rparr>,
          \<lparr>pdfField = ''Buyer'', value = ''Ann Lee'', sourcePath = ''personal_info.full_name''\<rparr>,
          \<lparr>pdfField = ''Vehicle'', value = ''---'', sourcePath = ''__INTEREST_VEHICLE_YMM__''\<rparr>,
          \<lparr>pdfField = ''TradeIn'', value = ''Yes'', sourcePath = ''vehicle_info.trade_in''\<rparr>,
          \<lparr>pdfField = ''SSN'', value = ''[Manual Entry]'', sourcePath = ''N/A''\<rparr>,
          \<lparr>pdfField = ''Notes'', value = ''---'', sourcePath = ''Not Mapped''\<rparr>]"
  by (simp add: generatePreviewData_def env_day1_def sale_mapping_def preview_field_def
      FINANCIAL_FIELDS_TO_SKIP_def SPECIAL_HANDLERS_def truthy_str_def toLocaleDateString_def
      read_mapping_def Object_prototype_names_def format_value_def
      nat_to_str_digits personal_paths vehicle_paths closing_customer_def trim_def is_space_def)

lemma day2_preview:
  "generatePreviewData env_day2 formId closing_customer =
     Inr [\<lparr>pdfField = ''SaleDate'', value = ''11/3/2026'', sourcePath = ''__CURRENT_DATE__''\<rparr>,
          \<lparr>pdfField = ''Buyer'', value = ''Ann Lee'', sourcePath = ''personal_info.full_name''\<rparr>,
          \<lparr>pdfField = ''Vehicle'', value = ''---'', sourcePath = ''__INTEREST_VEHICLE_YMM__''\<rparr>,
          \<lparr>pdfField = ''TradeIn'', value = ''Yes'', sourcePath = ''vehicle_info.trade_in''\<rparr>,
          \<lparr>pdfField = ''SSN'', value = ''[Manual Entry]'', sourcePath = ''N/A''\<rparr>,
          \<lparr>pdfField = ''Notes'', value = ''---'', sourcePath = ''Not Mapped''\<rparr>]"
  by (simp add: generatePreviewData_def env_day2_def env_day1_def sale_mapping_def preview_field_def
      FINANCIAL_FIELDS_TO_SKIP_def SPECIAL_HANDLERS_def truthy_str_def toLocaleDateString_def
      read_mapping_def Object_prototype_names_def format_value_def
      nat_to_str_digits personal_paths vehicle_paths closing_customer_def trim_def is_space_def)

text \<open>
  Claim C9, as stated, fails: with the same saved mapping, the same profile and the
  same discovered fields, a call on 2 November and a call on 3 November give
  different values for the field mapped to \<^verbatim>\<open>__CURRENT_DATE__\<close>.
\<close>

theorem generatePreviewData_clock_counterexample:
  "getMappingsForForm env_day1 ''delivery_report'' = getMappingsForForm env_day2 ''delivery_report'' \<and>
   getDiscoveredFields env_day1 ''delivery_report'' = getDiscoveredFields env_day2 ''delivery_report'' \<and>
   generatePreviewData env_day1 ''delivery_report'' closing_customer \<noteq>
   generatePreviewData env_day2 ''delivery_report'' closing_customer"
  by (simp add: day1_preview day2_preview) (simp add: env_day1_def env_day2_def)

text \<open>
  Claim C9, amended. With the same saved mapping and the same discovered fields,
  two calls of \<^verbatim>\<open>generatePreviewData\<close> on the same profile give the same fields in
  the same order with the same values and source paths, provided the clock prints
  the same date at both calls or no discovered field outside the skip list is mapped
  to \<^verbatim>\<open>__CURRENT_DATE__\<close>. The other special keys depend on the profile only.
\<close>

theorem generatePreviewData_two_runs:
  assumes "getMappingsForForm env1 formId = getMappingsForForm env2 formId"
    and "getDiscoveredFields env1 formId = getDiscoveredFields env2 formId"
    and "toLocaleDateString (now env1) = toLocaleDateString (now env2) \<or>
         (\<forall>field \<in> set (getDiscoveredFields env1 formId).
            field \<notin> set FINANCIAL_FIELDS_TO_SKIP \<longrightarrow>
            getMappingsForForm env1 formId field \<noteq> Some ''__CURRENT_DATE__'')"
  shows "generatePreviewData env1 formId c = generatePreviewData env2 formId c"
proof -
  have "preview_field (now env1) (getMappingsForForm env1 formId) c field =
        preview_field (now env2) (getMappingsForForm env1 formId) c field"
    if "field \<in> set (getDiscoveredFields env1 formId)" for field
    using assms(3) that by (intro preview_field_clock) blast
  then have "preview_loop (now env1) (getMappingsForForm env1 formId) c (getDiscoveredFields env1 formId) [] =
             preview_loop (now env2) (getMappingsForForm env1 formId) c (getDiscoveredFields env1 formId) []"
    by (rule preview_loop_clock)
  with assms(1,2) show ?thesis
    by (simp add: generatePreviewData_def)
qed

theorem generatePreviewData_two_runs_witness:
  "toLocaleDateString (now env_day1) \<noteq> toLocaleDateString (now env_day2) \<and>
   generatePreviewData (env_day1\<lparr>getMappingsForForm := \<lambda>formId. buyer_mapping\<rparr>) ''delivery_report''
     financing_customer =
   generatePreviewData (env_day2\<lparr>getMappingsForForm := \<lambda>formId. buyer_mapping\<rparr>) ''delivery_report''
     financing_customer"
proof -
  have "toLocaleDateString (now env_day1) \<noteq> toLocaleDateString (now env_day2)"
    by (simp add: env_day1_def env_day2_def toLocaleDateString_def nat_to_str_digits)
  moreover have
    "generatePreviewData (env_day1\<lparr>getMappingsForForm := \<lambda>formId. buyer_mapping\<rparr>) ''delivery_report''
       financing_customer =
     generatePreviewData (env_day2\<lparr>getMappingsForForm := \<lambda>formId. buyer_mapping\<rparr>) ''delivery_report''
       financing_customer"
    by (rule generatePreviewData_two_runs)
       (simp_all add: env_day1_def env_day2_def buyer_mapping_def FINANCIAL_FIELDS_TO_SKIP_def)
  ultimately show ?thesis by simp
qed


text \<open>
  The mapping screen offers the special keys and the flat keys of the profile. A
  mapping made of these, on field names that \<^verbatim>\<open>Object.prototype\<close> does not
  supply, always yields preview data.
\<close>

lemma references_text: "\<exists>texts. js_Strings (map reference_to_js rs) = Inr texts"
  by (induction rs) (auto simp add: reference_to_js_def)

lemma flat_key_resolves:
  assumes "path \<in> set (generateFlatKeys INITIAL_CUSTOMER_PROFILE [])"
  shows "\<exists>v text. getValueByPath (profile_to_js c) path = Inr v \<and> js_String (format_value v) = Inr text"
proof -
  obtain texts where "js_Strings (map reference_to_js (references (financial_info c))) = Inr texts"
    using references_text by blast
  then have "\<forall>path \<in> set (generateFlatKeys INITIAL_CUSTOMER_PROFILE []).
          \<exists>v text. getValueByPath (profile_to_js c) path = Inr v \<and> js_String (format_value v) = Inr text"
    unfolding initial_flat_keys
    by (simp add: personal_paths vehicle_paths financial_sales_paths format_value_def)
  with assms show ?thesis by blast
qed

lemma flat_key_no_handler:
  assumes "path \<in> set (generateFlatKeys INITIAL_CUSTOMER_PROFILE [])"
  shows "SPECIAL_HANDLERS path = Inr None"
proof -
  have "\<forall>path \<in> set (generateFlatKeys INITIAL_CUSTOMER_PROFILE []). SPECIAL_HANDLERS path = Inr None"
    unfolding initial_flat_keys
    by (simp add: SPECIAL_HANDLERS_def Object_prototype_names_def)
  with assms show ?thesis by blast
qed

lemma special_key_handler:
  assumes "path \<in> set MAPPABLE_SPECIAL_KEYS"
  shows "\<exists>handler. SPECIAL_HANDLERS path = Inr (Some handler)"
  using assms by (auto simp add: MAPPABLE_SPECIAL_KEYS_def SPECIAL_HANDLERS_def)

lemma preview_field_returns:
  assumes "field \<in> set FINANCIAL_FIELDS_TO_SKIP \<or> field \<notin> set Object_prototype_names"
    and "\<And>path. mappings field = Some path \<Longrightarrow>
           path \<in> set MAPPABLE_SPECIAL_KEYS \<or> path \<in> set (generateFlatKeys INITIAL_CUSTOMER_PROFILE [])"
  shows "\<exists>filled. preview_field clock mappings c field = Inr filled"
proof (cases "field \<in> set FINANCIAL_FIELDS_TO_SKIP")
  case True
  then show ?thesis by (simp add: preview_field_def)
next
  case False
  with assms(1) have host: "field \<notin> set Object_prototype_names" by simp
  show ?thesis
  proof (cases "mappings field")
    case None
    with False host show ?thesis
      by (simp add: preview_field_def read_mapping_def format_value_def)
  next
    case (Some path)
    from assms(2) [OF Some] show ?thesis
    proof
      assume "path \<in> set MAPPABLE_SPECIAL_KEYS"
      then obtain handler where "SPECIAL_HANDLERS path = Inr (Some handler)"
        using special_key_handler by blast
      with False Some show ?thesis
        by (simp add: preview_field_def read_mapping_def format_value_def)
    next
      assume flat: "path \<in> set (generateFlatKeys INITIAL_CUSTOMER_PROFILE [])"
      obtain v shown
        where "getValueByPath (profile_to_js c) path = Inr v" "js_String (format_value v) = Inr shown"
        using flat_key_resolves [OF flat] by blast
      with False Some flat_key_no_handler [OF flat] show ?thesis
        by (simp add: preview_field_def read_mapping_def Let_def format_value_def [of "JStr []"])
    qed
  qed
qed

lemma preview_loop_returns:
  assumes "\<And>field. field \<in> set names \<Longrightarrow>
             field \<in> set FINANCIAL_FIELDS_TO_SKIP \<or> field \<notin> set Object_prototype_names"
    and "\<And>field path. field \<in> set names \<Longrightarrow> mappings field = Some path \<Longrightarrow>
           path \<in> set MAPPABLE_SPECIAL_KEYS \<or> path \<in> set (generateFlatKeys INITIAL_CUSTOMER_PROFILE [])"
  shows "\<exists>fs. preview_loop clock mappings c names acc = Inr fs"
  using assms
proof (induction names arbitrary: acc)
  case Nil
  show ?case by simp
next
  case (Cons field names)
  have "\<exists>filled. preview_field clock mappings c field = Inr filled"
  proof (rule preview_field_returns)
    show "field \<in> set FINANCIAL_FIELDS_TO_SKIP \<or> field \<notin> set Object_prototype_names"
      using Cons.prems(1) [of field] by simp
    show "path \<in> set MAPPABLE_SPECIAL_KEYS \<or> path \<in> set (generateFlatKeys INITIAL_CUSTOMER_PROFILE [])"
      if "mappings field = Some path" for path
      using Cons.prems(2) [of field path] that by simp
  qed
  then obtain filled where "preview_field clock mappings c field = Inr filled"
    by blast
  moreover have "\<exists>fs. preview_loop clock mappings c names (acc @ [filled]) = Inr fs"
  proof (rule Cons.IH)
    show "f \<in> set FINANCIAL_FIELDS_TO_SKIP \<or> f \<notin> set Object_prototype_names"
      if "f \<in> set names" for f
      using Cons.prems(1) [of f] that by simp
    show "path \<in> set MAPPABLE_SPECIAL_KEYS \<or> path \<in> set (generateFlatKeys INITIAL_CUSTOMER_PROFILE [])"
      if "f \<in> set names" "mappings f = Some path" for f path
      using Cons.prems(2) [of f path] that by simp
  qed
  ultimately show ?case by simp
qed

lemma generatePreviewData_returns:
  assumes "\<And>field. field \<in> set (getDiscoveredFields env formId) \<Longrightarrow>
             field \<in> set FINANCIAL_FIELDS_TO_SKIP \<or> field \<notin> set Object_prototype_names"
    and "\<And>field path. field \<in> set (getDiscoveredFields env formId) \<Longrightarrow>
           getMappingsForForm env formId field = Some path \<Longrightarrow>
           path \<in> set MAPPABLE_SPECIAL_KEYS \<or> path \<in> set (generateFlatKeys INITIAL_CUSTOMER_PROFILE [])"
  shows "\<exists>previewData. generatePreviewData env formId c = Inr previewData"
  unfolding generatePreviewData_def Let_def
proof (rule preview_loop_returns)
  show "f \<in> set FINANCIAL_FIELDS_TO_SKIP \<or> f \<notin> set Object_prototype_names"
    if "f \<in> set (getDiscoveredFields env formId)" for f
    using assms(1) [OF that] .
  show "path \<in> set MAPPABLE_SPECIAL_KEYS \<or> path \<in> set (generateFlatKeys INITIAL_CUSTOMER_PROFILE [])"
    if "f \<in> set (getDiscoveredFields env formId)" "getMappingsForForm env formId f = Some path"
    for f path
    using assms(2) [OF that] .
qed

section \<open>Properties of generatePdfBytes\<close>

lemma fill_loop_document:
  "fst (fill_loop lib frm previewData (pdfForm, console)) =
     foldl (try_fill lib) pdfForm (filter writable previewData)"
proof (induction previewData arbitrary: pdfForm console)
  case Nil
  show ?case by simp
next
  case (Cons fieldData rest)
  show ?case
    by (cases "fill_field lib pdfForm fieldData")
       (simp_all add: Cons.IH try_fill_def writable_def)
qed

lemma foldl_try_fill_all_fail:
  "(\<And>d f. \<exists>e. fill_field lib d f = Inl e) \<Longrightarrow> foldl (try_fill lib) pdfForm fs = pdfForm"
proof (induction fs)
  case Nil
  show ?case by simp
next
  case (Cons f fs)
  obtain e where "fill_field lib pdfForm f = Inl e"
    using Cons.prems by blast
  with Cons show ?case by (simp add: try_fill_def)
qed

text \<open>
  Claim C8. Once \<^verbatim>\<open>generatePdfBytes\<close> has its template, its document, its form and
  its preview data, no failing write can abort it: a write is attempted for exactly
  the fields whose preview value is neither \<^verbatim>\<open>---\<close> nor \<^verbatim>\<open>[Manual Entry]\<close>, in
  order, every attempt that throws is skipped, and then the form is flattened and
  the document saved; the result is what \<^verbatim>\<open>flatten\<close> and \<^verbatim>\<open>save\<close> return on the
  document so filled. Even when every single write throws, the untouched form is
  flattened and saved.
\<close>

theorem generatePdfBytes_write_failures_skipped:
  assumes "getTemplateFile env (Form.id frm) = Some template"
    and "template \<noteq> ''''"
    and "load lib template = Inr pdfDoc"
    and "getForm lib pdfDoc = Inr pdfForm"
    and "generatePreviewData env (Form.id frm) customer = Inr previewData"
  shows "fst (fill_loop lib frm previewData (pdfForm, [])) =
           foldl (try_fill lib) pdfForm (filter writable previewData) \<and>
         generatePdfBytes env lib frm customer =
           (case flatten lib (foldl (try_fill lib) pdfForm (filter writable previewData)) of
              Inl e \<Rightarrow> Inl (Thrown e)
            | Inr flat \<Rightarrow> (case save lib flat of Inl e \<Rightarrow> Inl (Thrown e) | Inr saved \<Rightarrow> Inr saved)) \<and>
         ((\<forall>d f. \<exists>e. fill_field lib d f = Inl e) \<longrightarrow>
            generatePdfBytes env lib frm customer =
              (case flatten lib pdfForm of
                 Inl e \<Rightarrow> Inl (Thrown e)
               | Inr flat \<Rightarrow> (case save lib flat of Inl e \<Rightarrow> Inl (Thrown e) | Inr saved \<Rightarrow> Inr saved)))"
proof -
  have doc: "fst (fill_loop lib frm previewData (pdfForm, [])) =
      foldl (try_fill lib) pdfForm (filter writable previewData)"
    by (rule fill_loop_document)
  have res: "generatePdfBytes env lib frm customer =
      (case flatten lib (foldl (try_fill lib) pdfForm (filter writable previewData)) of
         Inl e \<Rightarrow> Inl (Thrown e)
       | Inr flat \<Rightarrow> (case save lib flat of Inl e \<Rightarrow> Inl (Thrown e) | Inr saved \<Rightarrow> Inr saved))"
    using assms doc by (simp add: generatePdfBytes_def truthy_str_def Let_def)
  have "generatePdfBytes env lib frm customer =
      (case flatten lib pdfForm of
         Inl e \<Rightarrow> Inl (Thrown e)
       | Inr flat \<Rightarrow> (case save lib flat of Inl e \<Rightarrow> Inl (Thrown e) | Inr saved \<Rightarrow> Inr saved))"
    if "\<forall>d f. \<exists>e. fill_field lib d f = Inl e"
    using res foldl_try_fill_all_fail [of lib pdfForm "filter writable previewData"] that
    by simp
  with doc res show ?thesis by blast
qed

theorem generatePdfBytes_write_failures_skipped_witness:
  "getTemplateFile env_day1 (Form.id (ALL_FORMS ! 4)) = Some ''JVBERi0xLjcK'' \<and>
   load throwing_lib ''JVBERi0xLjcK'' = Inr [] \<and>
   getForm throwing_lib [] = Inr [] \<and>
   (\<exists>previewData. generatePreviewData env_day1 (Form.id (ALL_FORMS ! 4)) closing_customer = Inr previewData) \<and>
   (\<forall>d f. \<exists>e. fill_field throwing_lib d f = Inl e) \<and>
   generatePdfBytes env_day1 throwing_lib (ALL_FORMS ! 4) closing_customer = Inr [] \<and>
   load text_lib ''JVBERi0xLjcK'' = Inr [] \<and>
   getForm text_lib [] = Inr [] \<and>
   generatePdfBytes env_day1 text_lib (ALL_FORMS ! 4) closing_customer =
     Inr [length ''11/2/2026'', length ''Ann Lee'', length ''Yes'']"
proof -
  have t: "getTemplateFile env_day1 (Form.id (ALL_FORMS ! 4)) = Some ''JVBERi0xLjcK''"
    by (simp add: env_day1_def)
  have n: "''JVBERi0xLjcK'' \<noteq> ''''" by simp
  have l: "load throwing_lib ''JVBERi0xLjcK'' = Inr []"
    by (simp add: throwing_lib_def)
  have g: "getForm throwing_lib [] = Inr []"
    by (simp add: throwing_lib_def)
  have l': "load text_lib ''JVBERi0xLjcK'' = Inr []"
    by (simp add: text_lib_def throwing_lib_def)
  have g': "getForm text_lib [] = Inr []"
    by (simp add: text_lib_def throwing_lib_def)
  note p = day1_preview [of "Form.id (ALL_FORMS ! 4)"]
  have f: "\<forall>d f. \<exists>e. fill_field throwing_lib d f = Inl e"
    by (simp add: fill_field_def throwing_lib_def)
  have a: "generatePdfBytes env_day1 throwing_lib (ALL_FORMS ! 4) closing_customer = Inr []"
  proof -
    from generatePdfBytes_write_failures_skipped [OF t n l g p] f
    have "generatePdfBytes env_day1 throwing_lib (ALL_FORMS ! 4) closing_customer =
      (case flatten throwing_lib [] of
         Inl e \<Rightarrow> Inl (Thrown e)
       | Inr flat \<Rightarrow> (case save throwing_lib flat of Inl e \<Rightarrow> Inl (Thrown e) | Inr saved \<Rightarrow> Inr saved))"
      by blast
    then show ?thesis by (simp add: throwing_lib_def)
  qed
  have b: "generatePdfBytes env_day1 text_lib (ALL_FORMS ! 4) closing_customer =
     Inr [length ''11/2/2026'', length ''Ann Lee'', length ''Yes'']"
  proof -
    from generatePdfBytes_write_failures_skipped [OF t n l' g' p]
    have "generatePdfBytes env_day1 text_lib (ALL_FORMS ! 4) closing_customer =
      (case flatten text_lib (foldl (try_fill text_lib) []
              (filter writable
                [\<lparr>pdfField = ''SaleDate'', value = ''11/2/2026'', sourcePath = ''__CURRENT_DATE__''\<rparr>,
                 \<lparr>pdfField = ''Buyer'', value = ''Ann Lee'', sourcePath = ''personal_info.full_name''\<rparr>,
                 \<lparr>pdfField = ''Vehicle'', value = ''---'', sourcePath = ''__INTEREST_VEHICLE_YMM__''\<rparr>,
                 \<lparr>pdfField = ''TradeIn'', value = ''Yes'', sourcePath = ''vehicle_info.trade_in''\<rparr>,
                 \<lparr>pdfField = ''SSN'', value = ''[Manual Entry]'', sourcePath = ''N/A''\<rparr>,
                 \<lparr>pdfField = ''Notes'', value = ''---'', sourcePath = ''Not Mapped''\<rparr>])) of
         Inl e \<Rightarrow> Inl (Thrown e)
       | Inr flat \<Rightarrow> (case save text_lib flat of Inl e \<Rightarrow> Inl (Thrown e) | Inr saved \<Rightarrow> Inr saved))"
      by blast
    then show ?thesis
      by (simp add: writable_def try_fill_def fill_field_def text_lib_def throwing_lib_def)
  qed
  from t l g p f a l' g' b show ?thesis by blast
qed

end
